theory Spec2Isabelle
  imports Complex_Main "HOL-Library.List_Lexorder" "HOL-Library.Char_ord"
begin

section \<open>Dispatch priority queue: data model\<close>

text \<open>
  JavaScript numbers are modelled as exact reals (no rounding error, no NaN, no
  infinities); time values (\<open>Date.getTime()\<close>) are integers, in milliseconds.
  An order is a dynamic object in the source. The model gives each field the types the
  source handles: a date field holds a string or a \<open>Date\<close> object (whose time value
  is \<open>None\<close> for an Invalid Date), the order total holds a string or a number, and
  \<open>None\<close> stands for a property that is missing, \<open>null\<close> or \<open>undefined\<close>.
\<close>

datatype dateInput = DateStr string | DateObj "int option"

datatype numInput = NumStr string | NumVal real

text \<open>
  The three derived fields are written together, and only by \<open>updateQueue\<close>
  (\<open>{...order, dpsScore, isOverdue, lastDPSCalculation}\<close>); the record holds them as
  one optional value, \<open>None\<close> for an order without own property \<open>dpsScore\<close>.
\<close>

record derived =
  dpsScore :: real
  isOverdueFlag :: bool
  lastDPSCalculation :: int

record order =
  orderNumber :: "string option"
  orderDate :: "dateInput option"
  expectedDispatch :: "dateInput option"
  deliveryBy :: "dateInput option"
  orderTotal :: "numInput option"
  scored :: "derived option"

text \<open>
  The host's \<open>new Date(string)\<close> and \<open>parseFloat(string)\<close> are not code of the
  repository; they are parameters. \<open>None\<close> is an Invalid Date, respectively NaN.
\<close>

record host =
  dateParse :: "string \<Rightarrow> int option"
  parseFloatStr :: "string \<Rightarrow> real option"

record cacheEntry =
  score :: real
  timestamp :: int

text \<open>
  The cache key is the template string \<open>`${order.orderNumber}_${hour}`\<close>; the hour has
  no underscore, so the string determines the pair, and the model keeps the pair.
\<close>

type_synonym cacheKey = "string option \<times> int"

type_synonym cache = "cacheKey \<rightharpoonup> cacheEntry"

section \<open>Dispatch priority score\<close>

definition cacheExpiry :: int where
  "cacheExpiry = 5 * 60 * 1000"

definition validateOrderForDPS :: "order \<Rightarrow> bool" where
  "validateOrderForDPS ord \<longleftrightarrow>
     orderNumber ord \<noteq> None \<and> orderDate ord \<noteq> None \<and>
     expectedDispatch ord \<noteq> None \<and> orderTotal ord \<noteq> None"

definition isDigit :: "char \<Rightarrow> bool" where
  "isDigit c \<longleftrightarrow> c \<in> set ''0123456789''"

text \<open>The white space \<open>String.prototype.trim\<close> removes, as far as a character of
  the model (a code below 256) can be one: the no-break space is the last of them.\<close>

definition isSpace :: "char \<Rightarrow> bool" where
  "isSpace c \<longleftrightarrow>
     c \<in> {CHR '' '', CHR 0x09, CHR 0x0A, CHR 0x0B, CHR 0x0C, CHR 0x0D, CHR 0xA0}"

definition trim :: "string \<Rightarrow> string" where
  "trim s = rev (dropWhile isSpace (rev (dropWhile isSpace s)))"

definition padStart2 :: "string \<Rightarrow> string" where
  "padStart2 s = replicate (2 - length s) CHR ''0'' @ s"

text \<open>
  The split of a string that matches \<open>/^\d{1,2}\/\d{1,2}\/\d{4}/\<close> at its slashes:
  the first three parts of \<open>dateStr.split('/')\<close>, or \<open>None\<close> when the pattern does
  not match.
\<close>

definition ukDateParts :: "string \<Rightarrow> (string \<times> string \<times> string) option" where
  "ukDateParts s =
     (let d1 = takeWhile isDigit s; r1 = dropWhile isDigit s in
      if length d1 \<in> {1, 2} \<and> r1 \<noteq> [] \<and> hd r1 = CHR ''/'' then
        (let d2 = takeWhile isDigit (tl r1); r2 = dropWhile isDigit (tl r1) in
         if length d2 \<in> {1, 2} \<and> r2 \<noteq> [] \<and> hd r2 = CHR ''/'' \<and>
            4 \<le> length (takeWhile isDigit (tl r2))
         then Some (d1, d2, takeWhile (\<lambda>c. c \<noteq> CHR ''/'') (tl r2))
         else None)
      else None)"

definition parseDate :: "host \<Rightarrow> dateInput option \<Rightarrow> int option" where
  "parseDate h dateInput =
     (case dateInput of
        None \<Rightarrow> None
      | Some (DateObj t) \<Rightarrow> t
      | Some (DateStr s) \<Rightarrow>
          if s = [] then None
          else (case ukDateParts (trim s) of
                  Some (p0, p1, p2) \<Rightarrow>
                    dateParse h (p2 @ ''-'' @ padStart2 p1 @ ''-'' @ padStart2 p0)
                | None \<Rightarrow> dateParse h (trim s)))"

definition getCacheKey :: "order \<Rightarrow> int \<Rightarrow> cacheKey" where
  "getCacheKey ord now = (orderNumber ord, now div (1000 * 60 * 60))"

definition calculateDispatchDeadlineScore :: "int \<Rightarrow> int \<Rightarrow> real" where
  "calculateDispatchDeadlineScore now expDispatch =
     (let hoursUntilDispatch = real_of_int (expDispatch - now) / (1000 * 60 * 60) in
      if hoursUntilDispatch \<le> 0 then 100
      else if hoursUntilDispatch \<le> 2 then 100
      else if hoursUntilDispatch \<le> 4 then 90
      else if hoursUntilDispatch \<le> 8 then 80
      else if hoursUntilDispatch \<le> 12 then 70
      else if hoursUntilDispatch \<le> 24 then 50
      else if hoursUntilDispatch \<le> 48 then 25
      else max 0 (25 - (hoursUntilDispatch - 48) / 10))"

definition calculateDeliveryPromiseScore :: "int \<Rightarrow> int option \<Rightarrow> real" where
  "calculateDeliveryPromiseScore ordDate delivBy =
     (case delivBy of
        None \<Rightarrow> 50
      | Some d \<Rightarrow>
          (let deliveryWindowHours = real_of_int (d - ordDate) / (1000 * 60 * 60) in
           if deliveryWindowHours \<le> 24 then 100
           else if deliveryWindowHours \<le> 48 then 80
           else if deliveryWindowHours \<le> 72 then 60
           else if deliveryWindowHours \<le> 120 then 40
           else if deliveryWindowHours \<le> 168 then 20
           else 10))"

definition calculateOrderAgeScore :: "int \<Rightarrow> int \<Rightarrow> real" where
  "calculateOrderAgeScore now ordDate =
     (let ageHours = real_of_int (now - ordDate) / (1000 * 60 * 60) in
      if ageHours \<le> 2 then 10
      else if ageHours \<le> 6 then 20
      else if ageHours \<le> 12 then 30
      else if ageHours \<le> 24 then 50
      else if ageHours \<le> 48 then 70
      else if ageHours \<le> 72 then 85
      else 100)"

definition calculateOrderValueScore :: "real \<Rightarrow> real" where
  "calculateOrderValueScore v =
     (if v \<le> 0 then 0
      else if v \<le> 25 then 10
      else if v \<le> 50 then 20
      else if v \<le> 100 then 30
      else if v \<le> 250 then 50
      else if v \<le> 500 then 70
      else if v \<le> 1000 then 85
      else 100)"

text \<open>\<open>parseFloat(order.orderTotal) || 0\<close>: NaN and 0 both give 0.\<close>

definition orderValueOf :: "host \<Rightarrow> order \<Rightarrow> real" where
  "orderValueOf h ord =
     (case orderTotal ord of
        None \<Rightarrow> 0
      | Some (NumVal v) \<Rightarrow> v
      | Some (NumStr s) \<Rightarrow> (case parseFloatStr h s of None \<Rightarrow> 0 | Some v \<Rightarrow> v))"

text \<open>The weighted sum of the four component scores, before rounding and clamping.\<close>

definition weightedScore :: "real \<Rightarrow> real \<Rightarrow> real \<Rightarrow> real \<Rightarrow> real" where
  "weightedScore dispatchDeadlineScore deliveryPromiseScore orderAgeScore orderValueScore =
     dispatchDeadlineScore * 0.60 + deliveryPromiseScore * 0.20 +
     orderAgeScore * 0.10 + orderValueScore * 0.10"

text \<open>\<open>Math.max(0, Math.min(100, Math.round(dpsScore * 100) / 100))\<close>\<close>

definition finalScoreOf :: "real \<Rightarrow> real" where
  "finalScoreOf dps = max 0 (min 100 (real_of_int (round (dps * 100)) / 100))"

text \<open>A cache entry is used while it is younger than \<open>cacheExpiry\<close>.\<close>

definition cacheLookup :: "cache \<Rightarrow> cacheKey \<Rightarrow> int \<Rightarrow> real option" where
  "cacheLookup c k now =
     (case c k of
        None \<Rightarrow> None
      | Some cached \<Rightarrow> if now - timestamp cached < cacheExpiry then Some (score cached) else None)"

text \<open>
  \<open>calculateDPS\<close> reads the clock once (\<open>now\<close>) and may write the cache: it returns
  the score and the cache after the call. Every path of the source ends in a
  \<open>return\<close>; on records of the types above no operation of the body throws.
\<close>

definition calculateDPS :: "host \<Rightarrow> cache \<Rightarrow> int \<Rightarrow> order \<Rightarrow> real \<times> cache" where
  "calculateDPS h c now ord =
     (if \<not> validateOrderForDPS ord then (0, c)
      else
        (let cacheKey = getCacheKey ord now in
         case cacheLookup c cacheKey now of
           Some cachedScore \<Rightarrow> (cachedScore, c)
         | None \<Rightarrow>
             (case (parseDate h (orderDate ord), parseDate h (expectedDispatch ord)) of
                (Some od, Some ed) \<Rightarrow>
                  (let finalScore =
                         finalScoreOf
                           (weightedScore
                              (calculateDispatchDeadlineScore now ed)
                              (calculateDeliveryPromiseScore od (parseDate h (deliveryBy ord)))
                              (calculateOrderAgeScore now od)
                              (calculateOrderValueScore (orderValueOf h ord)))
                   in (finalScore, c(cacheKey \<mapsto> \<lparr>score = finalScore, timestamp = now\<rparr>)))
              | _ \<Rightarrow> (0, c))))"

text \<open>\<open>isOverdue\<close> reads the clock once: \<open>now > expectedDispatch\<close>.\<close>

definition isOverdue :: "host \<Rightarrow> int \<Rightarrow> order \<Rightarrow> bool" where
  "isOverdue h now ord =
     (case parseDate h (expectedDispatch ord) of None \<Rightarrow> False | Some ed \<Rightarrow> ed < now)"

definition getUrgencyLevel :: "real \<Rightarrow> string" where
  "getUrgencyLevel dps =
     (if 80 \<le> dps then ''critical''
      else if 60 \<le> dps then ''high''
      else if 40 \<le> dps then ''medium''
      else if 20 \<le> dps then ''low''
      else ''normal'')"

section \<open>Priority queue manager\<close>

record perf =
  lastCalculationTime :: real
  totalCalculations :: nat
  averageCalculationTime :: real

record dpq =
  orders :: "order list"
  priorityQueue :: "order list"
  dirtyOrders :: "string option set"
  lastCalculation :: "int option"
  isCalculating :: bool
  performanceMetrics :: perf
  calculationCache :: cache

text \<open>The state the constructor builds.\<close>

definition newQueue :: dpq where
  "newQueue = \<lparr>orders = [], priorityQueue = [], dirtyOrders = {}, lastCalculation = None,
     isCalculating = False,
     performanceMetrics =
       \<lparr>lastCalculationTime = 0, totalCalculations = 0, averageCalculationTime = 0\<rparr>,
     calculationCache = Map.empty\<rparr>"

text \<open>
  The wall clock is read many times during one recompute. A clock is the sequence of
  the readings still to come: \<open>clk 0\<close> is the next \<open>new Date()\<close>.
\<close>

type_synonym clock = "nat \<Rightarrow> int"

definition advance :: "nat \<Rightarrow> clock \<Rightarrow> clock" where
  "advance k clk = (\<lambda>n. clk (n + k))"

text \<open>
  The callback of \<open>this.orders.map\<close> in \<open>updateQueue\<close>, run over the list from left
  to right, with the cache and the clock passed along. Per rescored order the clock is
  read in \<open>calculateDPS\<close>, in \<open>isOverdue\<close> and for \<open>lastDPSCalculation\<close>
  (\<open>calculateDPS\<close> reads it only after validation; the model takes a reading for
  every call and the invalid path ignores it).
\<close>

fun scoreOrders ::
  "host \<Rightarrow> string option set \<Rightarrow> order list \<Rightarrow> cache \<Rightarrow> clock \<Rightarrow> order list \<times> cache \<times> clock"
where
  "scoreOrders h dirty [] c clk = ([], c, clk)"
| "scoreOrders h dirty (ord # rest) c clk =
     (if orderNumber ord \<in> dirty \<or> scored ord = None then
        (case calculateDPS h c (clk 0) ord of
           (dps, c1) \<Rightarrow>
             (case scoreOrders h dirty rest c1 (advance 3 clk) of
                (rest', c2, clk2) \<Rightarrow>
                  (ord\<lparr>scored := Some \<lparr>dpsScore = dps, isOverdueFlag = isOverdue h (clk 1) ord,
                                        lastDPSCalculation = clk 2\<rparr>\<rparr> # rest', c2, clk2)))
      else
        (case scoreOrders h dirty rest c clk of
           (rest', c2, clk2) \<Rightarrow> (ord # rest', c2, clk2)))"

text \<open>
  The comparator of the sort in \<open>updateQueue\<close>. A derived field that is
  \<open>undefined\<close> makes the subtraction NaN, which the sort takes as \<open>+0\<close>; a
  \<open>null\<close> order date counts as 0 in \<open>aDate - bDate\<close>.
\<close>

definition dateKey :: "host \<Rightarrow> order \<Rightarrow> int" where
  "dateKey h ord = (case parseDate h (orderDate ord) of None \<Rightarrow> 0 | Some t \<Rightarrow> t)"

definition compareOrders :: "host \<Rightarrow> order \<Rightarrow> order \<Rightarrow> real" where
  "compareOrders h a b =
     (if map_option dpsScore (scored b) \<noteq> map_option dpsScore (scored a) then
        (case (scored a, scored b) of
           (Some da, Some db) \<Rightarrow> dpsScore db - dpsScore da
         | _ \<Rightarrow> 0)
      else if map_option isOverdueFlag (scored a) \<noteq> map_option isOverdueFlag (scored b) then
        (case (scored a, scored b) of
           (Some da, Some db) \<Rightarrow> of_bool (isOverdueFlag db) - of_bool (isOverdueFlag da)
         | _ \<Rightarrow> 0)
      else
        (let aValue = orderValueOf h a; bValue = orderValueOf h b in
         if bValue \<noteq> aValue then bValue - aValue
         else real_of_int (dateKey h a - dateKey h b)))"

text \<open>
  \<open>Array.prototype.sort(comparefn)\<close> is the host's. It is stable, and for a
  consistent comparator its result is the one stable sorted arrangement, which an
  insertion sort computes: \<open>x\<close> goes before the first element it does not
  have to follow.
\<close>

fun insortBy :: "('a \<Rightarrow> 'a \<Rightarrow> real) \<Rightarrow> 'a \<Rightarrow> 'a list \<Rightarrow> 'a list" where
  "insortBy cmp x [] = [x]"
| "insortBy cmp x (y # ys) = (if cmp x y \<le> 0 then x # y # ys else y # insortBy cmp x ys)"

definition sortBy :: "('a \<Rightarrow> 'a \<Rightarrow> real) \<Rightarrow> 'a list \<Rightarrow> 'a list" where
  "sortBy cmp xs = foldr (insortBy cmp) xs []"

definition updatePerformanceMetrics :: "perf \<Rightarrow> real \<Rightarrow> perf" where
  "updatePerformanceMetrics m calculationTime =
     (let currentAvg = averageCalculationTime m; count = Suc (totalCalculations m) in
      \<lparr>lastCalculationTime = calculationTime, totalCalculations = count,
       averageCalculationTime =
         (currentAvg * (real count - 1) + calculationTime) / real count\<rparr>)"

text \<open>
  \<open>updateQueue(orders = null)\<close>. The function is \<open>async\<close> but awaits nothing, so
  its body runs to completion within the call. \<open>ordersArg\<close> is \<open>None\<close> for a call
  without argument; \<open>calculationTime\<close> is the elapsed \<open>performance.now()\<close> time.
  The first guard returns before the \<open>try\<close>, so it leaves \<open>isCalculating\<close> set;
  the cached return is inside the \<open>try\<close>, whose \<open>finally\<close> clears it.
\<close>

definition updateQueue ::
  "host \<Rightarrow> dpq \<Rightarrow> order list option \<Rightarrow> clock \<Rightarrow> real \<Rightarrow> dpq \<times> order list" where
  "updateQueue h s ordersArg clk calculationTime =
     (if isCalculating s then (s, priorityQueue s)
      else
        (let s1 = (case ordersArg of
                     None \<Rightarrow> s
                   | Some os \<Rightarrow> s\<lparr>orders := os, dirtyOrders := set (map orderNumber os)\<rparr>)
         in
         if dirtyOrders s1 = {} \<and> priorityQueue s1 \<noteq> [] then
           (s1\<lparr>isCalculating := False\<rparr>, priorityQueue s1)
         else
           (case scoreOrders h (dirtyOrders s1) (orders s1) (calculationCache s1) clk of
              (updatedOrders, c', clk') \<Rightarrow>
                (let pq = sortBy (compareOrders h) updatedOrders in
                 (s1\<lparr>priorityQueue := pq, dirtyOrders := {}, lastCalculation := Some (clk' 0),
                     isCalculating := False,
                     performanceMetrics :=
                       updatePerformanceMetrics (performanceMetrics s1) calculationTime,
                     calculationCache := c'\<rparr>,
                  pq)))))"

definition markOrderDirty :: "dpq \<Rightarrow> string option \<Rightarrow> dpq" where
  "markOrderDirty s n = s\<lparr>dirtyOrders := insert n (dirtyOrders s)\<rparr>"

definition markAllOrdersDirty :: "dpq \<Rightarrow> dpq" where
  "markAllOrdersDirty s = s\<lparr>dirtyOrders := set (map orderNumber (orders s))\<rparr>"

definition clearCache :: "dpq \<Rightarrow> dpq" where
  "clearCache s = s\<lparr>calculationCache := Map.empty\<rparr>"

text \<open>The periodic sweep (\<open>setInterval\<close>) deletes the entries older than the expiry.\<close>

definition sweepCache :: "int \<Rightarrow> dpq \<Rightarrow> dpq" where
  "sweepCache now s =
     s\<lparr>calculationCache :=
         (\<lambda>k. case calculationCache s k of
                None \<Rightarrow> None
              | Some e \<Rightarrow> if now - timestamp e > cacheExpiry then None else Some e)\<rparr>"

text \<open>A direct call of the public method \<open>calculateDPS\<close> on the queue object.\<close>

definition callCalculateDPS :: "host \<Rightarrow> dpq \<Rightarrow> int \<Rightarrow> order \<Rightarrow> dpq" where
  "callCalculateDPS h s now ord =
     s\<lparr>calculationCache := snd (calculateDPS h (calculationCache s) now ord)\<rparr>"

text \<open>The states a queue object can be in: built by the constructor, then changed by
  its methods and the sweep.\<close>

inductive reachable :: "host \<Rightarrow> dpq \<Rightarrow> bool" for h :: host where
  reach_new: "reachable h newQueue"
| reach_update: "reachable h s \<Longrightarrow> reachable h (fst (updateQueue h s ordersArg clk t))"
| reach_dirty: "reachable h s \<Longrightarrow> reachable h (markOrderDirty s n)"
| reach_all_dirty: "reachable h s \<Longrightarrow> reachable h (markAllOrdersDirty s)"
| reach_clear: "reachable h s \<Longrightarrow> reachable h (clearCache s)"
| reach_sweep: "reachable h s \<Longrightarrow> reachable h (sweepCache now s)"
| reach_dps: "reachable h s \<Longrightarrow> reachable h (callCalculateDPS h s now ord)"

text \<open>
  The ranking property in the words of the specification, for two neighbours \<open>a\<close>
  (first) and \<open>b\<close>: scores descend; on equal scores an overdue order is not behind a
  non-overdue one; then the higher order total is first; then the older order date.
\<close>

definition dpsOf :: "order \<Rightarrow> real" where
  "dpsOf ord = (case scored ord of None \<Rightarrow> 0 | Some d \<Rightarrow> dpsScore d)"

definition overdueOf :: "order \<Rightarrow> bool" where
  "overdueOf ord = (case scored ord of None \<Rightarrow> False | Some d \<Rightarrow> isOverdueFlag d)"

definition inRankOrder :: "host \<Rightarrow> order \<Rightarrow> order \<Rightarrow> bool" where
  "inRankOrder h a b \<longleftrightarrow>
     dpsOf b \<le> dpsOf a \<and>
     (dpsOf a = dpsOf b \<longrightarrow>
        (overdueOf b \<longrightarrow> overdueOf a) \<and>
        (overdueOf a = overdueOf b \<longrightarrow>
           orderValueOf h b \<le> orderValueOf h a \<and>
           (orderValueOf h a = orderValueOf h b \<longrightarrow> dateKey h a \<le> dateKey h b)))"

fun ranked :: "host \<Rightarrow> order list \<Rightarrow> bool" where
  "ranked h (a # b # rest) \<longleftrightarrow> inRankOrder h a b \<and> ranked h (b # rest)"
| "ranked h _ \<longleftrightarrow> True"

text \<open>Every score in the cache lies in the range of a final score.\<close>

definition cacheOK :: "cache \<Rightarrow> bool" where
  "cacheOK c \<longleftrightarrow> (\<forall>k e. c k = Some e \<longrightarrow> 0 \<le> score e \<and> score e \<le> 100)"

definition queueInv :: "host \<Rightarrow> dpq \<Rightarrow> bool" where
  "queueInv h s \<longleftrightarrow>
     cacheOK (calculationCache s) \<and> ranked h (priorityQueue s) \<and>
     (\<forall>x \<in> set (priorityQueue s). scored x \<noteq> None)"

section \<open>Pack workflow\<close>

text \<open>
  The session tracker of \<open>PackWorkflow\<close>: the sessions, the history, the per-worker
  metrics and the module-wide \<open>WorkerMetrics\<close>. Events, notifications and the status
  written to \<open>window.ordersData\<close> are outside the model. \<open>PackStates\<close> is a
  datatype; a call reads the clock once (\<open>now\<close>).

  The tracker saves its state with \<open>JSON.stringify\<close> and restores it with
  \<open>JSON.parse\<close>, which has no reviver: a timestamp of a restored session is the ISO
  string of the date, not a \<open>Date\<close>. A timestamp is therefore a \<open>Date\<close> (its time
  value) or a string.
\<close>

datatype packState = PENDING | PICKING | PACKING | PACKED | DISPATCHED

datatype packPriority = CRITICAL | HIGH | MEDIUM | LOW

datatype packError =
    NoActiveSession string
  | InvalidTransition packState packState

datatype stamp = DateStamp int | IsoString string

text \<open>
  The numbers of the metrics: \<open>NaN\<close>, \<open>Infinity\<close> (the start value of
  \<open>bestTime\<close>) or a finite number, taken as an exact real. The source computes with
  doubles. They add whole numbers exactly while the summands and the sum are at most
  \<open>2^53\<close> in magnitude, and they round a quotient monotonically, so that a quotient
  lies between two whole numbers in the source whenever it does here. For other finite
  numbers (fractions, larger totals) the doubles of the source round and the reals of
  the model do not; the theorems below keep to whole numbers within that range.
\<close>

datatype jsnum = NaN | Infinity | Fin real

fun jsAdd :: "jsnum \<Rightarrow> jsnum \<Rightarrow> jsnum" where
  "jsAdd NaN _ = NaN"
| "jsAdd _ NaN = NaN"
| "jsAdd Infinity _ = Infinity"
| "jsAdd _ Infinity = Infinity"
| "jsAdd (Fin x) (Fin y) = Fin (x + y)"

text \<open>Division by a positive count.\<close>

fun jsDivCount :: "jsnum \<Rightarrow> nat \<Rightarrow> jsnum" where
  "jsDivCount NaN n = NaN"
| "jsDivCount Infinity n = Infinity"
| "jsDivCount (Fin x) n = Fin (x / real n)"

text \<open>\<open>Math.min\<close> and \<open>Math.max\<close>: NaN when an argument is NaN.\<close>

fun jsMin :: "jsnum \<Rightarrow> jsnum \<Rightarrow> jsnum" where
  "jsMin NaN _ = NaN"
| "jsMin _ NaN = NaN"
| "jsMin Infinity y = y"
| "jsMin x Infinity = x"
| "jsMin (Fin x) (Fin y) = Fin (min x y)"

fun jsMax :: "jsnum \<Rightarrow> jsnum \<Rightarrow> jsnum" where
  "jsMax NaN _ = NaN"
| "jsMax _ NaN = NaN"
| "jsMax Infinity _ = Infinity"
| "jsMax _ Infinity = Infinity"
| "jsMax (Fin x) (Fin y) = Fin (max x y)"

text \<open>The comparisons \<open><=\<close> and \<open>===\<close>: false when an argument is NaN.\<close>

fun jsLe :: "jsnum \<Rightarrow> jsnum \<Rightarrow> bool" where
  "jsLe NaN _ = False"
| "jsLe _ NaN = False"
| "jsLe _ Infinity = True"
| "jsLe Infinity (Fin y) = False"
| "jsLe (Fin x) (Fin y) = (x \<le> y)"

fun jsEq :: "jsnum \<Rightarrow> jsnum \<Rightarrow> bool" where
  "jsEq NaN _ = False"
| "jsEq _ NaN = False"
| "jsEq Infinity Infinity = True"
| "jsEq (Fin x) (Fin y) = (x = y)"
| "jsEq _ _ = False"

record packNote =
  noteTimestamp :: stamp
  noteText :: string
  noteWorker :: string

record packSession =
  sessionOrder :: string
  workerName :: string
  status :: packState
  startTime :: stamp
  startedAt :: stamp
  timestamps :: "packState \<rightharpoonup> stamp"
  priority :: packPriority
  estimatedDuration :: real
  actualDuration :: "jsnum option"
  sessionNotes :: "packNote list"
  completed :: "stamp option"

text \<open>The shift label (a formatted date) is left out.\<close>

record workerMetric =
  totalPackTime :: jsnum
  packCount :: nat
  averagePackTime :: jsnum
  bestTime :: jsnum
  worstTime :: jsnum
  packedOrders :: "(string \<times> jsnum \<times> int) list"

record globalMetric =
  globalTotalPackTime :: jsnum
  globalPackCount :: nat
  globalAveragePackTime :: jsnum

record packWorkflow =
  packSessions :: "string \<rightharpoonup> packSession"
  packHistory :: "packSession list"
  workerMetrics :: "string \<rightharpoonup> workerMetric"
  globalMetrics :: globalMetric

text \<open>The state of a new \<open>PackWorkflow\<close> with nothing to restore.\<close>

definition newPackWorkflow :: packWorkflow where
  "newPackWorkflow =
     \<lparr>packSessions = Map.empty, packHistory = [], workerMetrics = Map.empty,
      globalMetrics =
        \<lparr>globalTotalPackTime = Fin 0, globalPackCount = 0,
         globalAveragePackTime = Fin 0\<rparr>\<rparr>"

definition validTransitions :: "packState \<Rightarrow> packState list" where
  "validTransitions st =
     (case st of
        PENDING \<Rightarrow> [PICKING]
      | PICKING \<Rightarrow> [PACKING, PENDING]
      | PACKING \<Rightarrow> [PACKED, PICKING]
      | PACKED \<Rightarrow> [DISPATCHED]
      | DISPATCHED \<Rightarrow> [])"

definition isValidStateTransition :: "packState \<Rightarrow> packState \<Rightarrow> bool" where
  "isValidStateTransition currentState newState \<longleftrightarrow>
     newState \<in> set (validTransitions currentState)"

definition initialWorkerMetric :: workerMetric where
  "initialWorkerMetric =
     \<lparr>totalPackTime = Fin 0, packCount = 0, averagePackTime = Fin 0, bestTime = Infinity,
      worstTime = Fin 0, packedOrders = []\<rparr>"

definition recordPackingMetrics ::
  "packWorkflow \<Rightarrow> string \<Rightarrow> jsnum \<Rightarrow> string \<Rightarrow> int \<Rightarrow> packWorkflow" where
  "recordPackingMetrics s ordNumber duration worker now =
     (let metrics = (case workerMetrics s worker of
                       None \<Rightarrow> initialWorkerMetric
                     | Some m \<Rightarrow> m);
          total = jsAdd (totalPackTime metrics) duration;
          count = packCount metrics + 1;
          metrics' =
            \<lparr>totalPackTime = total, packCount = count,
             averagePackTime = jsDivCount total count,
             bestTime = jsMin (bestTime metrics) duration,
             worstTime = jsMax (worstTime metrics) duration,
             packedOrders = packedOrders metrics @ [(ordNumber, duration, now)]\<rparr>;
          g = globalMetrics s;
          gTotal = jsAdd (globalTotalPackTime g) duration;
          gCount = globalPackCount g + 1
      in s\<lparr>workerMetrics := (workerMetrics s)(worker \<mapsto> metrics'),
           globalMetrics :=
             \<lparr>globalTotalPackTime = gTotal, globalPackCount = gCount,
              globalAveragePackTime = jsDivCount gTotal gCount\<rparr>\<rparr>)"

text \<open>
  The number a timestamp is in \<open>endTime - startTime\<close>: the time value of a
  \<open>Date\<close>, 0 for \<open>null\<close>, NaN for the ISO string of a restored session.
\<close>

definition stampNumber :: "stamp option \<Rightarrow> jsnum" where
  "stampNumber v =
     (case v of
        None \<Rightarrow> Fin 0
      | Some (DateStamp t) \<Rightarrow> Fin (real_of_int t)
      | Some (IsoString str) \<Rightarrow> NaN)"

text \<open>\<open>Math.round((endTime - startTime) / (1000 * 60))\<close>, from
  \<open>timestamps.picking\<close> to \<open>timestamps.packed\<close>.\<close>

definition calculatePackDuration :: "packSession \<Rightarrow> jsnum" where
  "calculatePackDuration session =
     (case (stampNumber (timestamps session PACKED), stampNumber (timestamps session PICKING)) of
        (Fin endTime, Fin startT) \<Rightarrow>
          Fin (real_of_int (round ((endTime - startT) / (1000 * 60))))
      | _ \<Rightarrow> NaN)"

definition completePackWorkflow :: "packWorkflow \<Rightarrow> string \<Rightarrow> int \<Rightarrow> packWorkflow" where
  "completePackWorkflow s ordNumber now =
     (case packSessions s ordNumber of
        None \<Rightarrow> s
      | Some session \<Rightarrow>
          (let session' = session\<lparr>completed := Some (DateStamp now), status := DISPATCHED\<rparr> in
           s\<lparr>packHistory := packHistory s @ [session'],
             packSessions := (packSessions s)(ordNumber := None)\<rparr>))"

text \<open>
  \<open>updatePackStatus\<close> returns the state after the call and either the error thrown or
  the session returned. Both \<open>throw\<close> statements come before the first write, so an
  error leaves the state as it was.
\<close>

definition updatePackStatus ::
  "packWorkflow \<Rightarrow> string \<Rightarrow> packState \<Rightarrow> string \<Rightarrow> int \<Rightarrow>
   packWorkflow \<times> (packError + packSession)" where
  "updatePackStatus s ordNumber newStatus noteStr now =
     (case packSessions s ordNumber of
        None \<Rightarrow> (s, Inl (NoActiveSession ordNumber))
      | Some session \<Rightarrow>
          if \<not> isValidStateTransition (status session) newStatus then
            (s, Inl (InvalidTransition (status session) newStatus))
          else
            (let session1 =
                   session\<lparr>status := newStatus,
                           timestamps := (timestamps session)(newStatus \<mapsto> DateStamp now),
                           sessionNotes :=
                             (if noteStr \<noteq> [] then
                                sessionNotes session @
                                  [\<lparr>noteTimestamp = DateStamp now, noteText = noteStr,
                                    noteWorker = workerName session\<rparr>]
                              else sessionNotes session)\<rparr>;
                 session2 =
                   (if newStatus = PACKED then
                      session1\<lparr>actualDuration := Some (calculatePackDuration session1)\<rparr>
                    else session1);
                 s1 =
                   (if newStatus = PACKED then
                      recordPackingMetrics s ordNumber (calculatePackDuration session1)
                        (workerName session1) now
                    else s);
                 s2 = s1\<lparr>packSessions := (packSessions s1)(ordNumber \<mapsto> session2)\<rparr>
             in if newStatus = DISPATCHED then
                  (completePackWorkflow s2 ordNumber now,
                   Inr (session2\<lparr>completed := Some (DateStamp now), status := DISPATCHED\<rparr>))
                else (s2, Inr session2)))"




text \<open>The transition table in the words of the specification.\<close>

definition specTransitions :: "(packState \<times> packState) set" where
  "specTransitions =
     {(PENDING, PICKING),
      (PICKING, PACKING), (PICKING, PENDING),
      (PACKING, PACKED), (PACKING, PICKING),
      (PACKED, DISPATCHED)}"

text \<open>What C10 says of one accumulator, with the comparisons of the source's numbers.\<close>

definition metricOK :: "workerMetric \<Rightarrow> bool" where
  "metricOK m \<longleftrightarrow>
     jsEq (averagePackTime m) (jsDivCount (totalPackTime m) (packCount m)) \<and>
     (1 \<le> packCount m \<longrightarrow>
        jsLe (bestTime m) (averagePackTime m) \<and> jsLe (averagePackTime m) (worstTime m))"


section \<open>Batch optimizer\<close>

text \<open>
  The batch optimizer reads further properties of the order objects: \<open>customer\<close>,
  \<open>product\<close>, \<open>sku\<close>, \<open>value\<close> (here \<open>orderValue\<close>), \<open>urgencyScore\<close>,
  \<open>county\<close> and \<open>deliveryEndDate\<close> (here the time value of
  \<open>new Date(order.deliveryEndDate)\<close>, \<open>None\<close> for an Invalid Date). Numbers are
  reals. One call reads the clock several times; the model takes one reading \<open>now\<close>.
\<close>

record batchOrder = order +
  customer :: "string option"
  product :: "string option"
  sku :: "string option"
  orderValue :: real
  urgencyScore :: real
  county :: "string option"
  deliveryEndDate :: "int option"

record batchConfig =
  basePicking :: real
  batchSetup :: real
  itemPickingReduction :: real
  locationTravel :: real
  packingEfficiency :: real
  criticalUrgencyScore :: real
  riskUrgencyScore :: real
  maxBatchDelayHours :: real
  minTimeSavings :: real
  maxBatchSize :: nat
  minEfficiencyGain :: real
  sameCountyBonus :: real
  adjacentCountyBonus :: real

text \<open>The configuration the constructor sets.\<close>

definition defaultConfig :: batchConfig where
  "defaultConfig =
     \<lparr>basePicking = 3.5, batchSetup = 1.2, itemPickingReduction = 0.6,
      locationTravel = 0.8, packingEfficiency = 0.75,
      criticalUrgencyScore = 85, riskUrgencyScore = 60, maxBatchDelayHours = 2,
      minTimeSavings = 1.5, maxBatchSize = 8, minEfficiencyGain = 15,
      sameCountyBonus = 0.3, adjacentCountyBonus = 0.15\<rparr>"

definition countyAdjacency :: "(string \<times> string list) list" where
  "countyAdjacency =
     [(''Greater London'', [''Surrey'', ''Kent'', ''Essex'', ''Hertfordshire'']),
      (''Surrey'', [''Greater London'', ''Kent'', ''West Sussex'', ''Hampshire'', ''Berkshire'']),
      (''Kent'', [''Greater London'', ''Surrey'', ''East Sussex'']),
      (''Essex'', [''Greater London'', ''Hertfordshire'', ''Suffolk'', ''Cambridgeshire'']),
      (''Birmingham'', [''Warwickshire'', ''Staffordshire'', ''Worcestershire'']),
      (''Manchester'', [''Lancashire'', ''Cheshire'', ''Derbyshire'']),
      (''Liverpool'', [''Merseyside'', ''Lancashire'', ''Cheshire'']),
      (''Leeds'', [''West Yorkshire'', ''North Yorkshire'', ''Lancashire'']),
      (''Sheffield'', [''South Yorkshire'', ''Derbyshire'', ''Nottinghamshire'']),
      (''Bristol'', [''Somerset'', ''Gloucestershire'', ''South Gloucestershire'']),
      (''Newcastle'', [''Northumberland'', ''Durham'', ''Cumbria'']),
      (''Cardiff'', [''Vale of Glamorgan'', ''Rhondda Cynon Taf'', ''Caerphilly'']),
      (''Edinburgh'', [''Midlothian'', ''East Lothian'', ''West Lothian'']),
      (''Glasgow'', [''East Dunbartonshire'', ''North Lanarkshire'', ''South Lanarkshire'']),
      (''Belfast'', [''County Antrim'', ''County Down''])]"

record efficiency =
  baseTime :: real
  batchTime :: real
  timeSavings :: real
  efficiencyGain :: real
  costSavings :: real
  riskScore :: real

text \<open>A candidate batch. Of the source's object the model keeps the type, the orders,
  the efficiency and the priority; the descriptive fields (\<open>sku\<close>, \<open>county\<close>,
  \<open>counties\<close>, the ranges, \<open>factors\<close>, \<open>description\<close>) are left out.\<close>

record batch =
  batchType :: string
  batchOrders :: "batchOrder list"
  batchEfficiency :: efficiency
  batchPriority :: string

text \<open>\<open>Math.max(...xs)\<close>; it is \<open>-Infinity\<close> for no argument, which does not
  occur: a batch holds at least the target order.\<close>

fun maxOf :: "real list \<Rightarrow> real" where
  "maxOf [] = 0"
| "maxOf [x] = x"
| "maxOf (x # xs) = max x (maxOf xs)"

definition calculateBatchRiskScore :: "batchOrder list \<Rightarrow> real" where
  "calculateBatchRiskScore os =
     (let urgencyRisk = maxOf (map urgencyScore os) / 100;
          sizeRisk = (if length os > 5 then 0.2 else 0);
          valueRisk = (if \<exists>x \<in> set os. orderValue x > 1000 then 0.1 else 0)
      in min (urgencyRisk + sizeRisk + valueRisk) 1.0)"

definition calculateSKUBatchEfficiency :: "batchConfig \<Rightarrow> batchOrder list \<Rightarrow> real \<Rightarrow> efficiency" where
  "calculateSKUBatchEfficiency cfg os efficiencyMultiplier =
     (let base = real (length os) * basePicking cfg;
          batchSetupTime = batchSetup cfg;
          pickingReduction =
            (real (length os) - 1) * itemPickingReduction cfg * efficiencyMultiplier;
          packingEff = real (length os) * packingEfficiency cfg * efficiencyMultiplier;
          bTime = batchSetupTime + base - pickingReduction - packingEff;
          savings = base - bTime;
          gain = (savings / base) * 100
      in \<lparr>baseTime = base, batchTime = max bTime (base * 0.3), timeSavings = max savings 0,
          efficiencyGain = max gain 0, costSavings = savings * 0.5,
          riskScore = calculateBatchRiskScore os\<rparr>)"

definition calculateGeographicBatchEfficiency ::
  "batchConfig \<Rightarrow> batchOrder list \<Rightarrow> string \<Rightarrow> efficiency" where
  "calculateGeographicBatchEfficiency cfg os geoType =
     (let base = real (length os) * basePicking cfg;
          travelReduction =
            (if geoType = ''same_county'' then sameCountyBonus cfg
             else adjacentCountyBonus cfg);
          bTime = base * (1 - travelReduction) + batchSetup cfg;
          savings = base - bTime;
          gain = (savings / base) * 100
      in \<lparr>baseTime = base, batchTime = bTime, timeSavings = max savings 0,
          efficiencyGain = max gain 0, costSavings = savings * 0.5,
          riskScore = calculateBatchRiskScore os\<rparr>)"

definition calculateUrgencyBatchEfficiency :: "batchConfig \<Rightarrow> batchOrder list \<Rightarrow> efficiency" where
  "calculateUrgencyBatchEfficiency cfg os =
     (let base = real (length os) * basePicking cfg;
          avgUrgency = sum_list (map urgencyScore os) / real (length os);
          urgencyPenalty = avgUrgency / 100 * 0.2;
          bTime = base * (1 - 0.15 + urgencyPenalty) + batchSetup cfg;
          savings = base - bTime;
          gain = (savings / base) * 100
      in \<lparr>baseTime = base, batchTime = bTime, timeSavings = max savings 0,
          efficiencyGain = max gain 0, costSavings = savings * 0.5,
          riskScore = calculateBatchRiskScore os\<rparr>)"

definition calculateValueBatchEfficiency :: "batchConfig \<Rightarrow> batchOrder list \<Rightarrow> efficiency" where
  "calculateValueBatchEfficiency cfg os =
     (let base = real (length os) * basePicking cfg;
          avgValue = sum_list (map orderValue os) / real (length os);
          premiumHandling = (if avgValue > 1000 then 0.5 else 0.2);
          bTime = base * (1 - 0.1) + batchSetup cfg + premiumHandling;
          savings = base - bTime;
          gain = (savings / base) * 100
      in \<lparr>baseTime = base, batchTime = bTime, timeSavings = max savings 0,
          efficiencyGain = max gain 0, costSavings = savings * 0.5,
          riskScore = calculateBatchRiskScore os\<rparr>)"

definition calculateHybridBatchEfficiency ::
  "batchConfig \<Rightarrow> batchOrder list \<Rightarrow> string list \<Rightarrow> efficiency" where
  "calculateHybridBatchEfficiency cfg os factors =
     (let base = real (length os) * basePicking cfg;
          efficiencyBonus =
            (if ''sku'' \<in> set factors then 0.25 else 0) +
            (if ''geographic'' \<in> set factors then 0.15 else 0) +
            (if ''urgency'' \<in> set factors then 0.10 else 0) +
            (if ''value'' \<in> set factors then 0.05 else 0);
          bTime = base * (1 - efficiencyBonus) + batchSetup cfg;
          savings = base - bTime;
          gain = (savings / base) * 100
      in \<lparr>baseTime = base, batchTime = bTime, timeSavings = max savings 0,
          efficiencyGain = max gain 0, costSavings = savings * 0.5,
          riskScore = calculateBatchRiskScore os\<rparr>)"

text \<open>A property is truthy when it is present and not the empty string.\<close>

definition truthy :: "string option \<Rightarrow> bool" where
  "truthy v \<longleftrightarrow> v \<noteq> None \<and> v \<noteq> Some []"

definition validateInputs :: "batchOrder \<Rightarrow> batchOrder list \<Rightarrow> bool" where
  "validateInputs targetOrder availableOrders \<longleftrightarrow>
     truthy (orderNumber targetOrder) \<and> availableOrders \<noteq> []"

text \<open>\<open>Math.max(0, delayMinutes)\<close>; \<open>None\<close> is the NaN of an Invalid Date.\<close>

definition calculateDeliveryDelay :: "int \<Rightarrow> batchOrder \<Rightarrow> real option" where
  "calculateDeliveryDelay now ord =
     (case deliveryEndDate ord of
        None \<Rightarrow> None
      | Some deliveryDate \<Rightarrow> Some (max 0 (real_of_int (now - deliveryDate) / (1000 * 60))))"

text \<open>The predicate of the filter in \<open>filterEligibleOrders\<close>; a comparison with NaN
  is false.\<close>

definition eligible :: "batchConfig \<Rightarrow> int \<Rightarrow> batchOrder \<Rightarrow> batchOrder \<Rightarrow> bool" where
  "eligible cfg now targetOrder ord \<longleftrightarrow>
     (if orderNumber ord = orderNumber targetOrder then False
      else if urgencyScore ord > criticalUrgencyScore cfg then False
      else if (case calculateDeliveryDelay now ord of
                 None \<Rightarrow> False
               | Some deliveryDelay \<Rightarrow> deliveryDelay > maxBatchDelayHours cfg * 60) then False
      else if \<not> truthy (product ord) \<or> \<not> truthy (sku ord) then False
      else True)"

definition filterEligibleOrders ::
  "batchConfig \<Rightarrow> int \<Rightarrow> batchOrder \<Rightarrow> batchOrder list \<Rightarrow> batchOrder list" where
  "filterEligibleOrders cfg now targetOrder availableOrders =
     filter (eligible cfg now targetOrder) availableOrders"

text \<open>\<open>targetSKU.substring(0, Math.min(targetSKU.length - 2, 6))\<close>: a negative end
  counts as 0. \<open>order.sku.startsWith(basePattern) && order.sku !== targetSKU\<close>; the
  orders it filters passed the eligibility filter, so each has a SKU.\<close>

definition findSimilarSKUs :: "string \<Rightarrow> batchOrder list \<Rightarrow> batchOrder list" where
  "findSimilarSKUs targetSKU os =
     (let basePattern = take (nat (min (int (length targetSKU) - 2) 6)) targetSKU in
      filter (\<lambda>ord. case sku ord of
                       None \<Rightarrow> False
                     | Some s \<Rightarrow> take (length basePattern) s = basePattern \<and> s \<noteq> targetSKU)
        os)"

definition findOrderIntersection :: "batchOrder list \<Rightarrow> batchOrder list \<Rightarrow> batchOrder list" where
  "findOrderIntersection orders1 orders2 =
     filter (\<lambda>ord. orderNumber ord \<in> set (map orderNumber orders1)) orders2"

text \<open>
  \<open>analyzeSKUBatches\<close>. With an \<open>undefined\<close> target SKU, \<open>targetSKU.substring\<close>
  throws a TypeError, which \<open>findBatchOpportunities\<close> catches: the result is
  \<open>None\<close>.
\<close>

definition analyzeSKUBatches ::
  "batchConfig \<Rightarrow> batchOrder \<Rightarrow> batchOrder list \<Rightarrow> batch list option" where
  "analyzeSKUBatches cfg targetOrder eligibleOrders =
     (let targetSKU = sku targetOrder;
          exactMatches = filter (\<lambda>ord. sku ord = targetSKU) eligibleOrders;
          exact =
            (if exactMatches \<noteq> [] then
               (let os = take (maxBatchSize cfg) (targetOrder # exactMatches);
                    eff = calculateSKUBatchEfficiency cfg os 1.0
                in if timeSavings eff \<ge> minTimeSavings cfg then
                     [\<lparr>batchType = ''sku_exact'', batchOrders = os, batchEfficiency = eff,
                       batchPriority = ''high''\<rparr>]
                   else [])
             else [])
      in case targetSKU of
           None \<Rightarrow> None
         | Some tsku \<Rightarrow>
             (let similarSKUs = findSimilarSKUs tsku eligibleOrders;
                  similar =
                    (if similarSKUs \<noteq> [] then
                       (let os = take (maxBatchSize cfg) (targetOrder # similarSKUs);
                            eff = calculateSKUBatchEfficiency cfg os 0.7
                        in if timeSavings eff \<ge> minTimeSavings cfg then
                             [\<lparr>batchType = ''sku_similar'', batchOrders = os,
                               batchEfficiency = eff, batchPriority = ''medium''\<rparr>]
                           else [])
                     else [])
              in Some (exact @ similar)))"

definition analyzeGeographicBatches ::
  "batchConfig \<Rightarrow> batchOrder \<Rightarrow> batchOrder list \<Rightarrow> batch list" where
  "analyzeGeographicBatches cfg targetOrder eligibleOrders =
     (let targetCounty = county targetOrder;
          sameCountyOrders = filter (\<lambda>ord. county ord = targetCounty) eligibleOrders;
          same =
            (if sameCountyOrders \<noteq> [] then
               (let os = take (maxBatchSize cfg) (targetOrder # sameCountyOrders);
                    eff = calculateGeographicBatchEfficiency cfg os ''same_county''
                in if timeSavings eff \<ge> minTimeSavings cfg then
                     [\<lparr>batchType = ''geographic_same'', batchOrders = os,
                       batchEfficiency = eff, batchPriority = ''medium''\<rparr>]
                   else [])
             else []);
          adjacentCounties =
            (case targetCounty of
               None \<Rightarrow> []
             | Some c \<Rightarrow> (case map_of countyAdjacency c of None \<Rightarrow> [] | Some cs \<Rightarrow> cs));
          adjacentOrders =
            filter (\<lambda>ord. case county ord of
                             None \<Rightarrow> False
                           | Some c \<Rightarrow> c \<in> set adjacentCounties) eligibleOrders;
          adjacent =
            (if adjacentOrders \<noteq> [] then
               (let os = take (maxBatchSize cfg) (targetOrder # adjacentOrders);
                    eff = calculateGeographicBatchEfficiency cfg os ''adjacent_county''
                in if timeSavings eff \<ge> minTimeSavings cfg * 0.8 then
                     [\<lparr>batchType = ''geographic_adjacent'', batchOrders = os,
                       batchEfficiency = eff, batchPriority = ''low''\<rparr>]
                   else [])
             else [])
      in same @ adjacent)"

definition getUrgencyPriority :: "real \<Rightarrow> string" where
  "getUrgencyPriority u = (if u \<ge> 70 then ''high'' else if u \<ge> 40 then ''medium'' else ''low'')"

definition analyzeUrgencyBatches ::
  "batchConfig \<Rightarrow> batchOrder \<Rightarrow> batchOrder list \<Rightarrow> batch list" where
  "analyzeUrgencyBatches cfg targetOrder eligibleOrders =
     (let targetUrgency = urgencyScore targetOrder;
          urgencyTolerance = 15;
          similarUrgencyOrders =
            filter (\<lambda>ord. \<bar>urgencyScore ord - targetUrgency\<bar> \<le> urgencyTolerance \<and>
                          urgencyScore ord < riskUrgencyScore cfg) eligibleOrders
      in if similarUrgencyOrders \<noteq> [] then
           (let os = take (maxBatchSize cfg) (targetOrder # similarUrgencyOrders);
                eff = calculateUrgencyBatchEfficiency cfg os
            in if timeSavings eff \<ge> minTimeSavings cfg then
                 [\<lparr>batchType = ''urgency_similar'', batchOrders = os, batchEfficiency = eff,
                   batchPriority = getUrgencyPriority targetUrgency\<rparr>]
               else [])
         else [])"

definition analyzeValueBatches ::
  "batchConfig \<Rightarrow> batchOrder \<Rightarrow> batchOrder list \<Rightarrow> batch list" where
  "analyzeValueBatches cfg targetOrder eligibleOrders =
     (let targetValue = orderValue targetOrder in
      if targetValue \<ge> 500 then
        (let highValueOrders =
               filter (\<lambda>ord. orderValue ord \<ge> 500 \<and>
                             urgencyScore ord < riskUrgencyScore cfg) eligibleOrders
         in if highValueOrders \<noteq> [] then
              (let os = take (maxBatchSize cfg) (targetOrder # highValueOrders);
                   eff = calculateValueBatchEfficiency cfg os
               in if timeSavings eff \<ge> minTimeSavings cfg then
                    [\<lparr>batchType = ''value_high'', batchOrders = os, batchEfficiency = eff,
                      batchPriority = ''high''\<rparr>]
                  else [])
            else [])
      else [])"

text \<open>The two nested \<open>forEach\<close> loops of \<open>createHybridBatches\<close>; the urgency and
  value batches are parameters the source does not use.\<close>

definition hybridOf :: "batchConfig \<Rightarrow> batch \<Rightarrow> batch \<Rightarrow> batch list" where
  "hybridOf cfg skuBatch geoBatch =
     (let intersectionOrders =
            findOrderIntersection (batchOrders skuBatch) (batchOrders geoBatch)
      in if length intersectionOrders \<ge> 3 then
           (let eff = calculateHybridBatchEfficiency cfg intersectionOrders
                        [''sku'', ''geographic'']
            in if timeSavings eff \<ge> minTimeSavings cfg * 1.2 then
                 [\<lparr>batchType = ''hybrid_sku_geo'', batchOrders = intersectionOrders,
                   batchEfficiency = eff, batchPriority = ''high''\<rparr>]
               else [])
         else [])"

definition createHybridBatches :: "batchConfig \<Rightarrow> batch list \<Rightarrow> batch list \<Rightarrow> batch list" where
  "createHybridBatches cfg skuBatches geoBatches =
     concat (map (\<lambda>skuBatch. concat (map (hybridOf cfg skuBatch) geoBatches)) skuBatches)"

text \<open>The comparator of the ranking. It is not a consistent order (gains within 5
  points count as equal), so the host's sort may arrange the batches differently from
  the insertion sort of the model; both return the same batches.\<close>

definition compareBatches :: "batch \<Rightarrow> batch \<Rightarrow> real" where
  "compareBatches a b =
     (let efficiencyDiff =
            efficiencyGain (batchEfficiency b) - efficiencyGain (batchEfficiency a)
      in if \<bar>efficiencyDiff\<bar> > 5 then efficiencyDiff
         else
           (let timeDiff = timeSavings (batchEfficiency b) - timeSavings (batchEfficiency a)
            in if \<bar>timeDiff\<bar> > 1 then timeDiff
               else riskScore (batchEfficiency a) - riskScore (batchEfficiency b)))"

definition rankBatchesByEfficiency :: "batchConfig \<Rightarrow> batch list \<Rightarrow> batch list" where
  "rankBatchesByEfficiency cfg allBatches =
     take 10
       (sortBy compareBatches
          (filter (\<lambda>b. timeSavings (batchEfficiency b) \<ge> minTimeSavings cfg) allBatches))"

text \<open>\<open>performComprehensiveBatchAnalysis\<close>, as far as its ranked batches.\<close>

definition performComprehensiveBatchAnalysis ::
  "batchConfig \<Rightarrow> batchOrder \<Rightarrow> batchOrder list \<Rightarrow> batch list option" where
  "performComprehensiveBatchAnalysis cfg targetOrder eligibleOrders =
     (case analyzeSKUBatches cfg targetOrder eligibleOrders of
        None \<Rightarrow> None
      | Some skuBatches \<Rightarrow>
          (let geographicBatches = analyzeGeographicBatches cfg targetOrder eligibleOrders;
               urgencyBatches = analyzeUrgencyBatches cfg targetOrder eligibleOrders;
               valueBatches = analyzeValueBatches cfg targetOrder eligibleOrders;
               hybridBatches = createHybridBatches cfg skuBatches geographicBatches
           in Some (rankBatchesByEfficiency cfg
                      (skuBatches @ geographicBatches @ urgencyBatches @ valueBatches @
                       hybridBatches))))"

record feasibility =
  feasibilityScore :: int
  feasibilityFactors :: "string list"
  overallRating :: string

definition assessBatchFeasibility :: "batchConfig \<Rightarrow> batch \<Rightarrow> feasibility" where
  "assessBatchFeasibility cfg b =
     (let maxUrgency = maxOf (map urgencyScore (batchOrders b));
          f1 = (if maxUrgency > riskUrgencyScore cfg
                then (30, [''High urgency orders present'']) else (0, []));
          f2 = (if length (batchOrders b) > 6
                then (15, [''Large batch size may be complex'']) else (0, []));
          uniqueCounties = length (remdups (map county (batchOrders b)));
          f3 = (if uniqueCounties > 3
                then (20, [''Multiple delivery counties'']) else (0, []));
          sc = 100 - fst f1 - fst f2 - fst f3
      in \<lparr>feasibilityScore = sc, feasibilityFactors = snd f1 @ snd f2 @ snd f3,
          overallRating =
            (if sc \<ge> 80 then ''excellent'' else if sc \<ge> 60 then ''good''
             else if sc \<ge> 40 then ''fair'' else ''poor'')\<rparr>)"

text \<open>A recommendation: the rank, the batch's type, priority and orders, the rounded
  efficiency figures and the feasibility. The random batch id and the texts
  (\<open>description\<close>, \<open>actions\<close>, \<open>warnings\<close>) are left out.\<close>

record recommendation =
  rank :: nat
  recType :: string
  recPriority :: string
  recOrders :: "batchOrder list"
  timeSavingsMinutes :: real
  efficiencyGainPercent :: real
  costSavingsPounds :: real
  recRiskScore :: real
  recFeasibility :: feasibility

definition recommend :: "batchConfig \<Rightarrow> nat \<Rightarrow> batch \<Rightarrow> recommendation" where
  "recommend cfg index b =
     \<lparr>rank = index + 1, recType = batchType b, recPriority = batchPriority b,
      recOrders = batchOrders b,
      timeSavingsMinutes = real_of_int (round (timeSavings (batchEfficiency b) * 10)) / 10,
      efficiencyGainPercent =
        real_of_int (round (efficiencyGain (batchEfficiency b) * 10)) / 10,
      costSavingsPounds = real_of_int (round (costSavings (batchEfficiency b) * 100)) / 100,
      recRiskScore = real_of_int (round (riskScore (batchEfficiency b) * 100)) / 100,
      recFeasibility = assessBatchFeasibility cfg b\<rparr>"

definition generateBatchRecommendations :: "batchConfig \<Rightarrow> batch list \<Rightarrow> recommendation list" where
  "generateBatchRecommendations cfg rankedBatches =
     map (\<lambda>(index, b). recommend cfg index b) (enumerate 0 rankedBatches)"

text \<open>The result object: \<open>success\<close>, the \<open>reason\<close> or \<open>error\<close> text of a failure,
  the number of eligible orders and the recommendations.\<close>

record batchResult =
  success :: bool
  failure :: "string option"
  totalEligibleOrders :: nat
  batchOpportunities :: "recommendation list"

definition createEmptyResult :: "string \<Rightarrow> batchResult" where
  "createEmptyResult reason =
     \<lparr>success = False, failure = Some reason, totalEligibleOrders = 0,
      batchOpportunities = []\<rparr>"

text \<open>\<open>createErrorResult\<close> puts its text in the \<open>error\<close> field; the model keeps one
  field for both texts.\<close>

definition createErrorResult :: "string \<Rightarrow> batchResult" where
  "createErrorResult errorMessage =
     \<lparr>success = False, failure = Some errorMessage, totalEligibleOrders = 0,
      batchOpportunities = []\<rparr>"

text \<open>The message of the TypeError for \<open>undefined.substring\<close>, as V8 words it.\<close>

definition substringErrorMessage :: string where
  "substringErrorMessage =
     ''Cannot read properties of undefined (reading '' @ [CHR 0x27] @ ''substring'' @
     [CHR 0x27] @ '')''"

record batchOptimizer =
  analysisCache :: "string \<rightharpoonup> batchResult"
  cacheHits :: nat
  cacheMisses :: nat

definition newOptimizer :: batchOptimizer where
  "newOptimizer = \<lparr>analysisCache = Map.empty, cacheHits = 0, cacheMisses = 0\<rparr>"

text \<open>
  \<open>generateCacheKey\<close>: the order numbers, sorted as strings (\<open>undefined\<close> last, joined
  as the empty string), joined by underscores, encoded by the host's \<open>btoa\<close> (a
  parameter) and cut to 16 characters.
\<close>

definition joinWith :: "string \<Rightarrow> string list \<Rightarrow> string" where
  "joinWith sep xs = (case xs of [] \<Rightarrow> [] | x # rest \<Rightarrow> x @ concat (map (\<lambda>y. sep @ y) rest))"

definition generateCacheKey ::
  "(string \<Rightarrow> string) \<Rightarrow> batchOrder \<Rightarrow> batchOrder list \<Rightarrow> string" where
  "generateCacheKey btoa targetOrder availableOrders =
     (let ids = orderNumber targetOrder # map orderNumber availableOrders;
          orderIds = sort (concat (map (\<lambda>i. case i of None \<Rightarrow> [] | Some s \<Rightarrow> [s]) ids)) @
                     map (\<lambda>i. []) (filter (\<lambda>i. i = None) ids)
      in ''batch_'' @ take 16 (btoa (joinWith ''_'' orderIds)))"

text \<open>
  \<open>findBatchOpportunities\<close> returns the optimizer's state after the call and the
  result. The function is \<open>async\<close> and awaits only values it computes itself.
\<close>

definition findBatchOpportunities ::
  "(string \<Rightarrow> string) \<Rightarrow> batchConfig \<Rightarrow> batchOptimizer \<Rightarrow> int \<Rightarrow> batchOrder \<Rightarrow>
   batchOrder list \<Rightarrow> batchOptimizer \<times> batchResult" where
  "findBatchOpportunities btoa cfg s now targetOrder availableOrders =
     (if \<not> validateInputs targetOrder availableOrders then
        (s, createEmptyResult ''Invalid input parameters'')
      else
        (let cacheKey = generateCacheKey btoa targetOrder availableOrders in
         case analysisCache s cacheKey of
           Some cached \<Rightarrow> (s\<lparr>cacheHits := cacheHits s + 1\<rparr>, cached)
         | None \<Rightarrow>
             (let s1 = s\<lparr>cacheMisses := cacheMisses s + 1\<rparr>;
                  eligibleOrders = filterEligibleOrders cfg now targetOrder availableOrders
              in if eligibleOrders = [] then
                   (s1, createEmptyResult ''No eligible orders found for batching'')
                 else
                   (case performComprehensiveBatchAnalysis cfg targetOrder eligibleOrders of
                      None \<Rightarrow> (s1, createErrorResult substringErrorMessage)
                    | Some rankedBatches \<Rightarrow>
                        (let result =
                               \<lparr>success = True, failure = None,
                                totalEligibleOrders = length eligibleOrders,
                                batchOpportunities =
                                  generateBatchRecommendations cfg rankedBatches\<rparr>
                         in (s1\<lparr>analysisCache := (analysisCache s1)(cacheKey \<mapsto> result)\<rparr>,
                             result))))))"

text \<open>\<open>validateBatchForExecution\<close>, the check \<open>executeBatch\<close> makes before it runs a
  batch: \<open>None\<close> when the batch is valid, else the reason.\<close>

text \<open>A number in a template string: its decimal digits.\<close>

fun showNat :: "nat \<Rightarrow> string" where
  "showNat n =
     (if n < 10 then [char_of (48 + n)]
      else showNat (n div 10) @ [char_of (48 + n mod 10)])"

declare showNat.simps [simp del]

definition validateBatchForExecution :: "batchConfig \<Rightarrow> batchOrder list \<Rightarrow> string option" where
  "validateBatchForExecution cfg os =
     (if length os < 2 then Some ''Batch must contain at least 2 orders''
      else if length os > maxBatchSize cfg then Some (''Batch size exceeds maximum of '' @ showNat (maxBatchSize cfg))
      else if filter (\<lambda>x. urgencyScore x > criticalUrgencyScore cfg) os \<noteq> []
        then Some ''Batch contains critical urgency orders''
      else None)"

text \<open>
  What holds of the orders of every recommendation computed on a cache miss: the target
  order comes first, at least one other order follows, the size is within the maximum,
  and every order after the target passed the eligibility filter (so its urgency is not
  above the ceiling).
\<close>

definition wellFormedBatch ::
  "batchConfig \<Rightarrow> int \<Rightarrow> batchOrder \<Rightarrow> batchOrder list \<Rightarrow> bool" where
  "wellFormedBatch cfg now targetOrder os \<longleftrightarrow>
     (\<exists>rest. os = targetOrder # rest \<and> rest \<noteq> [] \<and> length os \<le> maxBatchSize cfg \<and>
        (\<forall>x \<in> set rest. eligible cfg now targetOrder x))"

section \<open>Concrete inputs\<close>

text \<open>
  A host whose parsers accept no string; the inputs below carry \<open>Date\<close> objects and
  numbers, which do not reach the host's parsers.
\<close>

definition noParseHost :: host where
  "noParseHost = \<lparr>dateParse = (\<lambda>s. None), parseFloatStr = (\<lambda>s. None)\<rparr>"

text \<open>
  The specification's scenario: order \<open>A\<close> with \<open>expectedDispatch\<close> one hour ago,
  \<open>orderDate\<close> 26 hours ago, \<open>deliveryBy\<close> in 24 hours and \<open>orderTotal\<close> 1500.
\<close>

definition scenarioA :: "int \<Rightarrow> order" where
  "scenarioA now =
     \<lparr>orderNumber = Some ''A'',
      orderDate = Some (DateObj (Some (now - 26 * 3600000))),
      expectedDispatch = Some (DateObj (Some (now - 1 * 3600000))),
      deliveryBy = Some (DateObj (Some (now + 24 * 3600000))),
      orderTotal = Some (NumVal 1500),
      scored = None\<rparr>"

text \<open>
  An overdue order as the test suite generates them: dispatch due an hour ago, ordered an
  hour ago, delivery promised in seven days, total 20.
\<close>

definition overdueOrder :: "int \<Rightarrow> order" where
  "overdueOrder now =
     \<lparr>orderNumber = Some ''TEST-1'',
      orderDate = Some (DateObj (Some (now - 1 * 3600000))),
      expectedDispatch = Some (DateObj (Some (now - 1 * 3600000))),
      deliveryBy = Some (DateObj (Some (now + 168 * 3600000))),
      orderTotal = Some (NumVal 20),
      scored = None\<rparr>"

text \<open>The same order number with a date string no parser accepts.\<close>

definition badDateOrder :: "int \<Rightarrow> order" where
  "badDateOrder now = (overdueOrder now)\<lparr>orderDate := Some (DateStr ''not-a-date'')\<rparr>"

text \<open>An order without the required field \<open>orderTotal\<close>.\<close>

definition noTotalOrder :: "int \<Rightarrow> order" where
  "noTotalOrder now = (overdueOrder now)\<lparr>orderTotal := None\<rparr>"

text \<open>The same order number with another total.\<close>

definition editedOrder :: "int \<Rightarrow> order" where
  "editedOrder now = (overdueOrder now)\<lparr>orderTotal := Some (NumVal 1500)\<rparr>"

definition t0 :: int where
  "t0 = 1700000000000"

text \<open>A tracker whose one session, of order \<open>DEMO001\<close>, is in a given state.\<close>

definition sessionIn :: "packState \<Rightarrow> packSession" where
  "sessionIn st =
     \<lparr>sessionOrder = ''DEMO001'', workerName = ''Sam'', status = st,
      startTime = DateStamp t0, startedAt = DateStamp t0,
      timestamps = [PICKING \<mapsto> DateStamp t0], priority = HIGH,
      estimatedDuration = 5, actualDuration = None, sessionNotes = [], completed = None\<rparr>"

definition oneSession :: "packState \<Rightarrow> packWorkflow" where
  "oneSession st = newPackWorkflow\<lparr>packSessions := [''DEMO001'' \<mapsto> sessionIn st]\<rparr>"



text \<open>A target order above the ceiling and two candidates with its SKU.\<close>

definition batchOrderOf :: "string \<Rightarrow> string \<Rightarrow> real \<Rightarrow> string \<Rightarrow> batchOrder" where
  "batchOrderOf n s u c =
     \<lparr>orderNumber = Some n, orderDate = None, expectedDispatch = None, deliveryBy = None,
      orderTotal = None, scored = None, customer = None, product = Some ''Laptop'',
      sku = Some s, orderValue = 100, urgencyScore = u, county = Some c,
      deliveryEndDate = None\<rparr>"

definition urgentTarget :: batchOrder where
  "urgentTarget = batchOrderOf ''DEMO002'' ''LAP-15'' 95 ''Kent''"

definition candidatePool :: "batchOrder list" where
  "candidatePool =
     [batchOrderOf ''DEMO001'' ''LAP-15'' 40 ''Essex'',
      batchOrderOf ''DEMO003'' ''LAP-15'' 30 ''Leeds'']"

section \<open>Properties of the dispatch priority score\<close>

lemmas dps_defs =
  calculateDPS_def validateOrderForDPS_def cacheLookup_def parseDate_def
  calculateDispatchDeadlineScore_def calculateDeliveryPromiseScore_def
  calculateOrderAgeScore_def calculateOrderValueScore_def orderValueOf_def
  finalScoreOf_def weightedScore_def getCacheKey_def cacheExpiry_def

lemma finalScoreOf_range: "0 \<le> finalScoreOf x \<and> finalScoreOf x \<le> 100"
  by (simp add: finalScoreOf_def)

text \<open>The three ways a call of \<open>calculateDPS\<close> ends.\<close>

lemma calculateDPS_cases:
  "calculateDPS h c now ord = (0, c) \<or>
   (\<exists>e. c (getCacheKey ord now) = Some e \<and> calculateDPS h c now ord = (score e, c)) \<or>
   (\<exists>x. calculateDPS h c now ord =
      (finalScoreOf x, c(getCacheKey ord now \<mapsto> \<lparr>score = finalScoreOf x, timestamp = now\<rparr>)))"
  by (auto simp: calculateDPS_def cacheLookup_def Let_def split: option.splits if_splits)

lemma calculateDPS_cacheOK:
  assumes "cacheOK c"
  shows "cacheOK (snd (calculateDPS h c now ord))"
    and "0 \<le> fst (calculateDPS h c now ord)"
    and "fst (calculateDPS h c now ord) \<le> 100"
proof -
  let ?r = "calculateDPS h c now ord"
  consider (zero) "?r = (0, c)"
    | (hit) e where "c (getCacheKey ord now) = Some e" "?r = (score e, c)"
    | (miss) x where "?r = (finalScoreOf x,
        c(getCacheKey ord now \<mapsto> \<lparr>score = finalScoreOf x, timestamp = now\<rparr>))"
    using calculateDPS_cases [of h c now ord] by blast
  then have "cacheOK (snd ?r) \<and> 0 \<le> fst ?r \<and> fst ?r \<le> 100"
  proof cases
    case zero
    with assms show ?thesis by simp
  next
    case hit
    from assms hit(1) have "0 \<le> score e \<and> score e \<le> 100"
      unfolding cacheOK_def by blast
    with assms hit(2) show ?thesis by simp
  next
    case miss
    from assms finalScoreOf_range [of x]
    have "cacheOK (c(getCacheKey ord now \<mapsto> \<lparr>score = finalScoreOf x, timestamp = now\<rparr>))"
      unfolding cacheOK_def by (simp del: split_paired_All)
    with miss finalScoreOf_range [of x] show ?thesis by simp
  qed
  then show "cacheOK (snd ?r)" "0 \<le> fst ?r" "fst ?r \<le> 100" by simp_all
qed

subsection \<open>The scoring loop of the recompute\<close>

lemma scoreOrders_step:
  obtains (rescore) dps c1 r2 c2 clk2 where
      "orderNumber ord \<in> dirty \<or> scored ord = None"
      "calculateDPS h c (clk 0) ord = (dps, c1)"
      "scoreOrders h dirty rest c1 (advance 3 clk) = (r2, c2, clk2)"
      "scoreOrders h dirty (ord # rest) c clk =
         (ord\<lparr>scored := Some \<lparr>dpsScore = dps, isOverdueFlag = isOverdue h (clk 1) ord,
                                lastDPSCalculation = clk 2\<rparr>\<rparr> # r2, c2, clk2)"
    | (keep) r2 c2 clk2 where
      "scored ord \<noteq> None"
      "scoreOrders h dirty rest c clk = (r2, c2, clk2)"
      "scoreOrders h dirty (ord # rest) c clk = (ord # r2, c2, clk2)"
proof (cases "orderNumber ord \<in> dirty \<or> scored ord = None")
  case True
  obtain dps c1 where d: "calculateDPS h c (clk 0) ord = (dps, c1)"
    by (cases "calculateDPS h c (clk 0) ord")
  obtain r2 c2 clk2 where r: "scoreOrders h dirty rest c1 (advance 3 clk) = (r2, c2, clk2)"
    by (cases "scoreOrders h dirty rest c1 (advance 3 clk)")
  from True d r show ?thesis by (intro rescore [of dps c1 r2 c2 clk2]) simp_all
next
  case False
  obtain r2 c2 clk2 where r: "scoreOrders h dirty rest c clk = (r2, c2, clk2)"
    by (cases "scoreOrders h dirty rest c clk")
  from False r show ?thesis by (intro keep [of r2 c2 clk2]) auto
qed

lemma scoreOrders_cacheOK:
  "scoreOrders h dirty os c clk = (r, c', clk') \<Longrightarrow> cacheOK c \<Longrightarrow> cacheOK c'"
proof (induction os arbitrary: c clk r c' clk')
  case Nil
  then show ?case by simp
next
  case (Cons ord rest)
  show ?case
  proof (cases rule: scoreOrders_step [of ord dirty h c clk rest])
    case (rescore dps c1 r2 c2 clk2)
    have "cacheOK c1"
      using calculateDPS_cacheOK(1) [OF Cons.prems(2), of h "clk 0" ord] rescore(2) by simp
    from Cons.IH [OF rescore(3) this] rescore(4) Cons.prems(1) show ?thesis by simp
  next
    case (keep r2 c2 clk2)
    from Cons.IH [OF keep(2) Cons.prems(2)] keep(3) Cons.prems(1) show ?thesis by simp
  qed
qed

lemma scoreOrders_scored:
  "scoreOrders h dirty os c clk = (r, c', clk') \<Longrightarrow> \<forall>x \<in> set r. scored x \<noteq> None"
proof (induction os arbitrary: c clk r c' clk')
  case Nil
  then show ?case by simp
next
  case (Cons ord rest)
  show ?case
  proof (cases rule: scoreOrders_step [of ord dirty h c clk rest])
    case (rescore dps c1 r2 c2 clk2)
    from Cons.IH [OF rescore(3)] rescore(4) Cons.prems(1) show ?thesis by auto
  next
    case (keep r2 c2 clk2)
    from Cons.IH [OF keep(2)] keep(1,3) Cons.prems(1) show ?thesis by auto
  qed
qed

lemma scoreOrders_length:
  "scoreOrders h dirty os c clk = (r, c', clk') \<Longrightarrow> length r = length os"
proof (induction os arbitrary: c clk r c' clk')
  case Nil
  then show ?case by simp
next
  case (Cons ord rest)
  show ?case
  proof (cases rule: scoreOrders_step [of ord dirty h c clk rest])
    case (rescore dps c1 r2 c2 clk2)
    from Cons.IH [OF rescore(3)] rescore(4) Cons.prems(1) show ?thesis by auto
  next
    case (keep r2 c2 clk2)
    from Cons.IH [OF keep(2)] keep(3) Cons.prems(1) show ?thesis by auto
  qed
qed

subsection \<open>The sort\<close>

lemma set_insortBy: "set (insortBy cmp x xs) = insert x (set xs)"
  by (induction xs) auto

lemma set_sortBy: "set (sortBy cmp xs) = set xs"
  by (induction xs) (auto simp: sortBy_def set_insortBy)

text \<open>On scored orders the comparator says exactly what the specification's words say.\<close>

lemma compareOrders_inRankOrder:
  "scored a \<noteq> None \<Longrightarrow> scored b \<noteq> None \<Longrightarrow>
   compareOrders h a b \<le> 0 \<longleftrightarrow> inRankOrder h a b"
  by (auto simp: compareOrders_def inRankOrder_def dpsOf_def overdueOf_def Let_def)

lemma inRankOrder_total: "inRankOrder h a b \<or> inRankOrder h b a"
  by (auto simp: inRankOrder_def)

lemma inRankOrder_trans: "inRankOrder h a b \<Longrightarrow> inRankOrder h b c \<Longrightarrow> inRankOrder h a c"
  unfolding inRankOrder_def
  by (cases "dpsOf a = dpsOf b"; cases "dpsOf b = dpsOf c";
      cases "orderValueOf h a = orderValueOf h b"; cases "orderValueOf h b = orderValueOf h c";
      force)

lemma sorted_insortBy:
  assumes "scored x \<noteq> None" "\<forall>y \<in> set xs. scored y \<noteq> None"
    "sorted_wrt (inRankOrder h) xs"
  shows "sorted_wrt (inRankOrder h) (insortBy (compareOrders h) x xs)"
  using assms
proof (induction xs)
  case Nil
  then show ?case by simp
next
  case (Cons y ys)
  show ?case
  proof (cases "compareOrders h x y \<le> 0")
    case True
    then have xy: "inRankOrder h x y"
      using Cons.prems compareOrders_inRankOrder by simp
    then have "\<forall>z \<in> set ys. inRankOrder h x z"
      using Cons.prems(3) inRankOrder_trans by auto
    with True xy Cons.prems show ?thesis by simp
  next
    case False
    then have "\<not> inRankOrder h x y"
      using Cons.prems compareOrders_inRankOrder by simp
    then have yx: "inRankOrder h y x"
      using inRankOrder_total by blast
    have "sorted_wrt (inRankOrder h) (insortBy (compareOrders h) x ys)"
      using Cons by simp
    with False yx Cons.prems show ?thesis
      by (auto simp: set_insortBy)
  qed
qed

lemma sorted_sortBy:
  "\<forall>y \<in> set xs. scored y \<noteq> None \<Longrightarrow>
   sorted_wrt (inRankOrder h) (sortBy (compareOrders h) xs)"
proof (induction xs)
  case Nil
  then show ?case by (simp add: sortBy_def)
next
  case (Cons x xs)
  have "sorted_wrt (inRankOrder h)
          (insortBy (compareOrders h) x (sortBy (compareOrders h) xs))"
    using Cons by (intro sorted_insortBy) (auto simp: set_sortBy)
  then show ?case by (simp add: sortBy_def)
qed

lemma sorted_wrt_ranked: "sorted_wrt (inRankOrder h) xs \<Longrightarrow> ranked h xs"
  by (induction h xs rule: ranked.induct) auto

subsection \<open>The invariant of the queue object\<close>

lemma updateQueue_result:
  "snd (updateQueue h s a clk t) = priorityQueue (fst (updateQueue h s a clk t))"
  by (auto simp: updateQueue_def Let_def split: option.splits prod.splits)

lemma updateQueue_queueInv:
  assumes "queueInv h s"
  shows "queueInv h (fst (updateQueue h s a clk t))"
proof -
  define s1 where "s1 =
    (case a of None \<Rightarrow> s
     | Some os \<Rightarrow> s\<lparr>orders := os, dirtyOrders := set (map orderNumber os)\<rparr>)"
  have s1: "calculationCache s1 = calculationCache s" "priorityQueue s1 = priorityQueue s"
    by (auto simp: s1_def split: option.splits)
  obtain up c' clk' where sc:
    "scoreOrders h (dirtyOrders s1) (orders s1) (calculationCache s1) clk = (up, c', clk')"
    by (cases "scoreOrders h (dirtyOrders s1) (orders s1) (calculationCache s1) clk")
  have c': "cacheOK c'"
    using scoreOrders_cacheOK [OF sc] assms s1 by (simp add: queueInv_def)
  have up: "\<forall>x \<in> set up. scored x \<noteq> None"
    using scoreOrders_scored [OF sc] by simp
  then have "ranked h (sortBy (compareOrders h) up)"
    by (intro sorted_wrt_ranked sorted_sortBy)
  with c' up assms s1 sc show ?thesis
    unfolding updateQueue_def s1_def [symmetric]
    by (auto simp: queueInv_def Let_def set_sortBy)
qed

lemma reachable_queueInv: "reachable h s \<Longrightarrow> queueInv h s"
proof (induction rule: reachable.induct)
  case reach_new
  then show ?case by (simp add: queueInv_def newQueue_def cacheOK_def)
next
  case (reach_update s ordersArg clk t)
  then show ?case by (simp add: updateQueue_queueInv)
next
  case (reach_dirty s n)
  then show ?case by (simp add: queueInv_def markOrderDirty_def)
next
  case (reach_all_dirty s)
  then show ?case by (simp add: queueInv_def markAllOrdersDirty_def)
next
  case (reach_clear s)
  then show ?case by (simp add: queueInv_def clearCache_def cacheOK_def)
next
  case (reach_sweep s now)
  then show ?case
    by (auto simp: queueInv_def sweepCache_def cacheOK_def split: option.splits if_splits)
next
  case (reach_dps s now ord)
  then show ?case
    using calculateDPS_cacheOK(1) by (simp add: queueInv_def callCalculateDPS_def)
qed

text \<open>What a recompute leaves behind: either nothing changed because a calculation was
  marked as running, or the dirty set is empty and an empty ranking means an empty
  working set.\<close>

lemma updateQueue_cases:
  "(fst (updateQueue h s a clk t) = s \<and> isCalculating s) \<or>
   (dirtyOrders (fst (updateQueue h s a clk t)) = {} \<and>
    \<not> isCalculating (fst (updateQueue h s a clk t)) \<and>
    (priorityQueue (fst (updateQueue h s a clk t)) = [] \<longrightarrow>
       orders (fst (updateQueue h s a clk t)) = []))"
proof (cases "isCalculating s")
  case True
  then show ?thesis by (simp add: updateQueue_def)
next
  case False
  define s1 where "s1 =
    (case a of None \<Rightarrow> s
     | Some os \<Rightarrow> s\<lparr>orders := os, dirtyOrders := set (map orderNumber os)\<rparr>)"
  obtain up c' clk' where sc:
    "scoreOrders h (dirtyOrders s1) (orders s1) (calculationCache s1) clk = (up, c', clk')"
    by (cases "scoreOrders h (dirtyOrders s1) (orders s1) (calculationCache s1) clk")
  have "sortBy (compareOrders h) up = [] \<Longrightarrow> orders s1 = []"
    using scoreOrders_length [OF sc] set_sortBy [of "compareOrders h" up] by auto
  with False sc show ?thesis
    unfolding updateQueue_def s1_def [symmetric]
    by (auto simp: Let_def)
qed

section \<open>Claims about the priority scorer\<close>

text \<open>
  C1. For every order that passes the required-field validation and whose
  \<open>orderDate\<close> and \<open>expectedDispatch\<close> parse, \<open>calculateDPS\<close> returns a score
  between 0 and 100, in every state the queue object can reach and at every time.
\<close>

theorem calculateDPS_score_in_range:
  "reachable h s \<Longrightarrow> validateOrderForDPS ord \<Longrightarrow>
   parseDate h (orderDate ord) \<noteq> None \<Longrightarrow> parseDate h (expectedDispatch ord) \<noteq> None \<Longrightarrow>
   0 \<le> fst (calculateDPS h (calculationCache s) now ord) \<and>
   fst (calculateDPS h (calculationCache s) now ord) \<le> 100"
  using reachable_queueInv [of h s] calculateDPS_cacheOK(2,3)
  by (simp add: queueInv_def)

theorem calculateDPS_score_in_range_witness:
  "reachable noParseHost newQueue \<and> validateOrderForDPS (scenarioA t0) \<and>
   parseDate noParseHost (orderDate (scenarioA t0)) \<noteq> None \<and>
   parseDate noParseHost (expectedDispatch (scenarioA t0)) \<noteq> None \<and>
   0 \<le> fst (calculateDPS noParseHost (calculationCache newQueue) t0 (scenarioA t0)) \<and>
   fst (calculateDPS noParseHost (calculationCache newQueue) t0 (scenarioA t0)) \<le> 100"
proof -
  have r: "reachable noParseHost newQueue"
    by (rule reach_new)
  have v: "validateOrderForDPS (scenarioA t0)"
    by (simp add: validateOrderForDPS_def scenarioA_def)
  have d1: "parseDate noParseHost (orderDate (scenarioA t0)) \<noteq> None"
    by (simp add: parseDate_def scenarioA_def)
  have d2: "parseDate noParseHost (expectedDispatch (scenarioA t0)) \<noteq> None"
    by (simp add: parseDate_def scenarioA_def)
  from calculateDPS_score_in_range [OF r v d1 d2, of t0] r v d1 d2 show ?thesis
    by simp
qed

text \<open>
  C2, as the code has it. An order that misses a required field (\<open>orderNumber\<close>,
  \<open>orderDate\<close>, \<open>expectedDispatch\<close>, \<open>orderTotal\<close>) scores exactly 0, whatever the
  cache holds. An order whose \<open>orderDate\<close> or \<open>expectedDispatch\<close> does not parse
  scores exactly 0 when the cache holds no fresh entry under its key. In both cases the
  call returns (no exception) and leaves the cache as it was.
\<close>

theorem calculateDPS_invalid_scores_zero:
  "(\<not> validateOrderForDPS ord \<longrightarrow> calculateDPS h c now ord = (0, c)) \<and>
   ((parseDate h (orderDate ord) = None \<or> parseDate h (expectedDispatch ord) = None) \<and>
    cacheLookup c (getCacheKey ord now) now = None \<longrightarrow>
    calculateDPS h c now ord = (0, c))"
  by (auto simp: calculateDPS_def Let_def split: option.splits if_splits)

theorem calculateDPS_invalid_scores_zero_witness:
  "\<not> validateOrderForDPS (noTotalOrder t0) \<and>
   calculateDPS noParseHost Map.empty t0 (noTotalOrder t0) = (0, Map.empty) \<and>
   parseDate noParseHost (orderDate (badDateOrder t0)) = None \<and>
   cacheLookup Map.empty (getCacheKey (badDateOrder t0) t0) t0 = None \<and>
   calculateDPS noParseHost Map.empty t0 (badDateOrder t0) = (0, Map.empty)"
proof -
  have v: "\<not> validateOrderForDPS (noTotalOrder t0)"
    by (simp add: validateOrderForDPS_def noTotalOrder_def overdueOrder_def)
  have d: "parseDate noParseHost (orderDate (badDateOrder t0)) = None"
    by (simp add: parseDate_def badDateOrder_def noParseHost_def split: option.splits)
  have l: "cacheLookup Map.empty (getCacheKey (badDateOrder t0) t0) t0 = None"
    by (simp add: cacheLookup_def)
  from calculateDPS_invalid_scores_zero [of "noTotalOrder t0" noParseHost Map.empty t0]
    calculateDPS_invalid_scores_zero [of "badDateOrder t0" noParseHost Map.empty t0] v d l
  show ?thesis by simp
qed

text \<open>
  C2 as stated fails: the cache is consulted before the dates are parsed. After the
  order \<open>TEST-1\<close> has been scored with valid dates, the same order number with an
  unparseable \<open>orderDate\<close> is given the cached score 64 within the same five minutes.
\<close>

theorem calculateDPS_bad_date_counterexample:
  "validateOrderForDPS (badDateOrder t0) \<and>
   parseDate noParseHost (orderDate (badDateOrder t0)) = None \<and>
   fst (calculateDPS noParseHost
          (snd (calculateDPS noParseHost Map.empty t0 (overdueOrder t0)))
          (t0 + 1000) (badDateOrder t0)) = 64"
  by (simp add: dps_defs badDateOrder_def overdueOrder_def noParseHost_def t0_def
      split: option.splits)

text \<open>What the code does guarantee for an overdue order: a score of at least 63, on
  a cache miss.\<close>

lemma calculateDeliveryPromiseScore_ge: "10 \<le> calculateDeliveryPromiseScore od db"
  by (simp add: calculateDeliveryPromiseScore_def Let_def split: option.splits)

lemma calculateOrderAgeScore_ge: "10 \<le> calculateOrderAgeScore now od"
  by (simp add: calculateOrderAgeScore_def Let_def)

lemma calculateOrderValueScore_ge: "0 \<le> calculateOrderValueScore v"
  by (simp add: calculateOrderValueScore_def)

lemma finalScoreOf_ge_63:
  assumes "63 \<le> x"
  shows "63 \<le> finalScoreOf x"
proof -
  have "real_of_int 6300 \<le> x * 100"
    using assms by simp
  then have "6300 \<le> round (x * 100)"
    by (metis round_mono round_of_int)
  then have "(6300::real) \<le> real_of_int (round (x * 100))"
    by linarith
  then show ?thesis
    by (simp add: finalScoreOf_def)
qed

lemma calculateDPS_overdue_floor:
  assumes "validateOrderForDPS ord" "parseDate h (orderDate ord) = Some od"
    "parseDate h (expectedDispatch ord) = Some ed" "ed \<le> now"
    "cacheLookup c (getCacheKey ord now) now = None"
  shows "63 \<le> fst (calculateDPS h c now ord)"
proof -
  have d: "calculateDispatchDeadlineScore now ed = 100"
    using assms(4) by (simp add: calculateDispatchDeadlineScore_def Let_def divide_le_0_iff)
  have "63 \<le> weightedScore 100
      (calculateDeliveryPromiseScore od (parseDate h (deliveryBy ord)))
      (calculateOrderAgeScore now od) (calculateOrderValueScore (orderValueOf h ord))"
    using calculateDeliveryPromiseScore_ge [of od "parseDate h (deliveryBy ord)"]
      calculateOrderAgeScore_ge [of now od]
      calculateOrderValueScore_ge [of "orderValueOf h ord"]
    by (simp add: weightedScore_def)
  then show ?thesis
    using assms d finalScoreOf_ge_63 by (simp add: calculateDPS_def Let_def)
qed

text \<open>So an overdue order is at least of urgency level \<open>high\<close>.\<close>

lemma calculateDPS_overdue_urgency_level:
  assumes "validateOrderForDPS ord" "parseDate h (orderDate ord) = Some od"
    "parseDate h (expectedDispatch ord) = Some ed" "ed \<le> now"
    "cacheLookup c (getCacheKey ord now) now = None"
  shows "getUrgencyLevel (fst (calculateDPS h c now ord)) \<in> {''critical'', ''high''}"
  using calculateDPS_overdue_floor [OF assms] by (simp add: getUrgencyLevel_def)

text \<open>
  C3. The code at an overdue order of the kind the test suite generates: the dispatch
  component is 100 (weight 0.6), the delivery window of 169 hours gives 10 (weight 0.2),
  the age of one hour gives 10 (weight 0.1) and the total of 20 gives 10 (weight 0.1).
  The score is 64, below the floor of 70 the claim and the test state.
\<close>

theorem overdue_order_scores_64:
  "calculateDispatchDeadlineScore t0 (t0 - 1 * 3600000) = 100 \<and>
   fst (calculateDPS noParseHost Map.empty t0 (overdueOrder t0)) = 64"
  by (simp add: dps_defs overdueOrder_def noParseHost_def t0_def)

text \<open>
  C4, as the code has it. For the scenario order at any time \<open>now\<close>, with no fresh
  cache entry under its key: the dispatch sub-score is 100, the delivery window
  (\<open>deliveryBy - orderDate\<close>, 50 hours) gives the delivery sub-score 60, the age of 26
  hours gives the age sub-score 70, the value sub-score is 100, and the score is 89.
\<close>

theorem scenarioA_scores:
  "cacheLookup c (getCacheKey (scenarioA now) now) now = None \<Longrightarrow>
   calculateDispatchDeadlineScore now (now - 1 * 3600000) = 100 \<and>
   calculateDeliveryPromiseScore (now - 26 * 3600000) (Some (now + 24 * 3600000)) = 60 \<and>
   calculateOrderAgeScore now (now - 26 * 3600000) = 70 \<and>
   calculateOrderValueScore 1500 = 100 \<and>
   fst (calculateDPS h c now (scenarioA now)) = 89"
  by (simp add: calculateDPS_def validateOrderForDPS_def parseDate_def
      calculateDispatchDeadlineScore_def calculateDeliveryPromiseScore_def
      calculateOrderAgeScore_def calculateOrderValueScore_def orderValueOf_def
      finalScoreOf_def weightedScore_def scenarioA_def)

theorem scenarioA_scores_witness:
  "cacheLookup Map.empty (getCacheKey (scenarioA t0) t0) t0 = None \<and>
   fst (calculateDPS noParseHost Map.empty t0 (scenarioA t0)) = 89"
proof -
  have l: "cacheLookup Map.empty (getCacheKey (scenarioA t0) t0) t0 = None"
    by (simp add: cacheLookup_def)
  from scenarioA_scores [OF l, of noParseHost] l show ?thesis by simp
qed

text \<open>C4 as stated fails: the sub-scores are not all 100 and the score is not 100.\<close>

theorem scenarioA_counterexample:
  "\<not> (calculateDispatchDeadlineScore t0 (t0 - 1 * 3600000) = 100 \<and>
      calculateDeliveryPromiseScore (t0 - 26 * 3600000) (Some (t0 + 24 * 3600000)) = 100 \<and>
      calculateOrderAgeScore t0 (t0 - 26 * 3600000) = 100 \<and>
      calculateOrderValueScore 1500 = 100 \<and>
      fst (calculateDPS noParseHost Map.empty t0 (scenarioA t0)) = 100)"
  by (simp add: calculateDeliveryPromiseScore_def t0_def)

text \<open>
  C5, as the code has it. The score is determined by the order, the current time and
  the cache entry stored under the order's key (order number and hour): two calls with
  the same order at the same time return the same score when their caches agree on that
  key, and a call repeated at once on the cache the first call left returns the same
  score and leaves that cache as it is.
\<close>

theorem calculateDPS_deterministic_given_cache_entry:
  "(c1 (getCacheKey ord now) = c2 (getCacheKey ord now) \<longrightarrow>
      fst (calculateDPS h c1 now ord) = fst (calculateDPS h c2 now ord)) \<and>
   calculateDPS h (snd (calculateDPS h c now ord)) now ord =
     (fst (calculateDPS h c now ord), snd (calculateDPS h c now ord))"
  by (auto simp: calculateDPS_def cacheLookup_def Let_def cacheExpiry_def
      split: option.splits if_splits)

theorem calculateDPS_deterministic_given_cache_entry_witness:
  "(Map.empty :: cache) (getCacheKey (editedOrder t0) t0) =
     snd (calculateDPS noParseHost Map.empty t0 (scenarioA t0)) (getCacheKey (editedOrder t0) t0) \<and>
   fst (calculateDPS noParseHost Map.empty t0 (editedOrder t0)) =
     fst (calculateDPS noParseHost
            (snd (calculateDPS noParseHost Map.empty t0 (scenarioA t0))) t0 (editedOrder t0))"
proof -
  have k: "(Map.empty :: cache) (getCacheKey (editedOrder t0) t0) =
     snd (calculateDPS noParseHost Map.empty t0 (scenarioA t0)) (getCacheKey (editedOrder t0) t0)"
    by (simp add: dps_defs editedOrder_def overdueOrder_def scenarioA_def)
  from calculateDPS_deterministic_given_cache_entry
         [of Map.empty "editedOrder t0" t0
             "snd (calculateDPS noParseHost Map.empty t0 (scenarioA t0))" noParseHost] k
  show ?thesis by simp
qed

text \<open>
  C5 as stated fails: the cache key holds the order number and the hour, not the other
  fields. The same order at the same time scores 73 on an empty cache and 64 after the
  order number was scored with another total.
\<close>

theorem calculateDPS_depends_on_earlier_calls_counterexample:
  "fst (calculateDPS noParseHost Map.empty t0 (editedOrder t0)) = 73 \<and>
   fst (calculateDPS noParseHost
          (snd (calculateDPS noParseHost Map.empty t0 (overdueOrder t0)))
          t0 (editedOrder t0)) = 64"
  by (simp add: dps_defs editedOrder_def overdueOrder_def noParseHost_def t0_def)

section \<open>Claims about the priority queue manager\<close>

text \<open>
  C6. A recompute directly after a recompute, with no argument and no mutation in
  between, returns the ranking the first one returned (the same orders with the same
  scores, in the same order) and leaves the score cache untouched. It does no scoring:
  either the whole state is unchanged (the ranking is served as it is), or the working
  set is empty and there is nothing to score.
\<close>

theorem updateQueue_idempotent:
  "snd (updateQueue h (fst (updateQueue h s a clk t)) None clk2 t2) =
     snd (updateQueue h s a clk t) \<and>
   calculationCache (fst (updateQueue h (fst (updateQueue h s a clk t)) None clk2 t2)) =
     calculationCache (fst (updateQueue h s a clk t)) \<and>
   (fst (updateQueue h (fst (updateQueue h s a clk t)) None clk2 t2) =
      fst (updateQueue h s a clk t) \<or>
    orders (fst (updateQueue h s a clk t)) = [])"
proof -
  define s' where "s' = fst (updateQueue h s a clk t)"
  have r: "snd (updateQueue h s a clk t) = priorityQueue s'"
    by (simp add: s'_def updateQueue_result)
  consider (busy) "isCalculating s'"
    | (cached) "\<not> isCalculating s'" "dirtyOrders s' = {}" "priorityQueue s' \<noteq> []"
    | (empty) "\<not> isCalculating s'" "dirtyOrders s' = {}" "priorityQueue s' = []"
        "orders s' = []"
    using updateQueue_cases [of h s a clk t] unfolding s'_def by metis
  then show ?thesis
  proof cases
    case busy
    then show ?thesis
      unfolding s'_def [symmetric] r by (simp add: updateQueue_def)
  next
    case cached
    then show ?thesis
      unfolding s'_def [symmetric] r by (simp add: updateQueue_def)
  next
    case empty
    then show ?thesis
      unfolding s'_def [symmetric] r by (simp add: updateQueue_def sortBy_def)
  qed
qed

text \<open>
  C7. In every reachable state, the ranking a recompute returns is the stored ranking,
  every order in it carries its score, and every two neighbours are in rank order:
  the score of the first is at least the score of the second; on equal scores an overdue
  order is not behind a non-overdue one; then the higher order total is first; then the
  older order date.
\<close>

theorem updateQueue_ranked:
  "reachable h s \<Longrightarrow>
   ranked h (snd (updateQueue h s a clk t)) \<and>
   (\<forall>x \<in> set (snd (updateQueue h s a clk t)). scored x \<noteq> None) \<and>
   snd (updateQueue h s a clk t) = priorityQueue (fst (updateQueue h s a clk t))"
  using reachable_queueInv [OF reach_update, of h s a clk t] updateQueue_result [of h s a clk t]
  by (simp add: queueInv_def)

theorem updateQueue_ranked_witness:
  "reachable noParseHost newQueue \<and>
   snd (updateQueue noParseHost newQueue (Some [overdueOrder t0, scenarioA t0]) (\<lambda>n. t0) 5) =
     [(scenarioA t0)\<lparr>scored := Some \<lparr>dpsScore = 89, isOverdueFlag = True,
                                     lastDPSCalculation = t0\<rparr>\<rparr>,
      (overdueOrder t0)\<lparr>scored := Some \<lparr>dpsScore = 64, isOverdueFlag = True,
                                        lastDPSCalculation = t0\<rparr>\<rparr>] \<and>
   ranked noParseHost
     (snd (updateQueue noParseHost newQueue (Some [overdueOrder t0, scenarioA t0]) (\<lambda>n. t0) 5))"
proof -
  have r: "reachable noParseHost newQueue"
    by (rule reach_new)
  have e: "snd (updateQueue noParseHost newQueue (Some [overdueOrder t0, scenarioA t0]) (\<lambda>n. t0) 5) =
     [(scenarioA t0)\<lparr>scored := Some \<lparr>dpsScore = 89, isOverdueFlag = True,
                                     lastDPSCalculation = t0\<rparr>\<rparr>,
      (overdueOrder t0)\<lparr>scored := Some \<lparr>dpsScore = 64, isOverdueFlag = True,
                                        lastDPSCalculation = t0\<rparr>\<rparr>]"
    by (simp add: updateQueue_def newQueue_def dps_defs overdueOrder_def scenarioA_def
        noParseHost_def t0_def isOverdue_def advance_def sortBy_def compareOrders_def Let_def)
  have k: "ranked noParseHost
     (snd (updateQueue noParseHost newQueue (Some [overdueOrder t0, scenarioA t0]) (\<lambda>n. t0) 5))"
    using updateQueue_ranked [OF r, of "Some [overdueOrder t0, scenarioA t0]" "\<lambda>n. t0" 5]
    by (rule conjunct1)
  from r e k show ?thesis by (intro conjI)
qed

section \<open>Claims about the pack workflow\<close>

lemma isValidStateTransition_specTransitions:
  "isValidStateTransition a b \<longleftrightarrow> (a, b) \<in> specTransitions"
  by (cases a; cases b)
     (auto simp: specTransitions_def isValidStateTransition_def validTransitions_def)

text \<open>
  C9. For an order with an active session, a status change that is not in the table
  (PENDING to PICKING; PICKING to PACKING or PENDING; PACKING to PACKED or PICKING;
  PACKED to DISPATCHED; nothing from DISPATCHED) ends in the invalid-transition error
  naming both states, and the tracker's state is what it was. For an order without an
  active session (as after DISPATCHED, which moves the session to the history) every
  status change ends in the no-active-session error, the state again unchanged.
\<close>

theorem updatePackStatus_rejects_invalid_transition:
  "(packSessions s n = Some session \<and> (status session, newStatus) \<notin> specTransitions \<longrightarrow>
      updatePackStatus s n newStatus noteStr now =
        (s, Inl (InvalidTransition (status session) newStatus))) \<and>
   (packSessions s n = None \<longrightarrow>
      updatePackStatus s n newStatus noteStr now = (s, Inl (NoActiveSession n)))"
  by (auto simp: updatePackStatus_def isValidStateTransition_specTransitions)

theorem updatePackStatus_rejects_invalid_transition_witness:
  "packSessions (oneSession PENDING) ''DEMO001'' = Some (sessionIn PENDING) \<and>
   (status (sessionIn PENDING), PACKED) \<notin> specTransitions \<and>
   updatePackStatus (oneSession PENDING) ''DEMO001'' PACKED [] t0 =
     (oneSession PENDING, Inl (InvalidTransition PENDING PACKED)) \<and>
   packSessions (oneSession DISPATCHED) ''DEMO001'' = Some (sessionIn DISPATCHED) \<and>
   (status (sessionIn DISPATCHED), PICKING) \<notin> specTransitions \<and>
   updatePackStatus (oneSession DISPATCHED) ''DEMO001'' PICKING [] t0 =
     (oneSession DISPATCHED, Inl (InvalidTransition DISPATCHED PICKING)) \<and>
   packSessions newPackWorkflow ''DEMO001'' = None \<and>
   updatePackStatus newPackWorkflow ''DEMO001'' PICKING [] t0 =
     (newPackWorkflow, Inl (NoActiveSession ''DEMO001''))"
proof -
  have a: "packSessions (oneSession st) ''DEMO001'' = Some (sessionIn st)" for st
    by (simp add: oneSession_def)
  have b: "(status (sessionIn PENDING), PACKED) \<notin> specTransitions"
    "(status (sessionIn DISPATCHED), PICKING) \<notin> specTransitions"
    by (simp_all add: sessionIn_def specTransitions_def)
  have c: "packSessions newPackWorkflow ''DEMO001'' = None"
    by (simp add: newPackWorkflow_def)
  have s: "status (sessionIn st) = st" for st
    by (simp add: sessionIn_def)
  from updatePackStatus_rejects_invalid_transition
         [of "oneSession PENDING" "''DEMO001''" "sessionIn PENDING" PACKED "[]" t0]
       updatePackStatus_rejects_invalid_transition
         [of "oneSession DISPATCHED" "''DEMO001''" "sessionIn DISPATCHED" PICKING "[]" t0]
       updatePackStatus_rejects_invalid_transition
         [of newPackWorkflow "''DEMO001''" "sessionIn PENDING" PICKING "[]" t0]
       a b c s
  show ?thesis by simp
qed

subsection \<open>Worker metrics\<close>







text \<open>NaN absorbs.\<close>

lemma jsnum_NaN_right:
  "jsAdd x NaN = NaN" "jsMin x NaN = NaN" "jsMax x NaN = NaN" "\<not> jsLe x NaN" "\<not> jsEq x NaN"
  by (cases x; simp)+

text \<open>A call with NaN leaves the worker's accumulator NaN, whatever it held.\<close>

lemma recordPackingMetrics_NaN:
  "\<exists>m. workerMetrics (recordPackingMetrics s n NaN worker now) worker = Some m \<and>
        totalPackTime m = NaN \<and> averagePackTime m = NaN \<and> bestTime m = NaN \<and>
        worstTime m = NaN \<and> \<not> metricOK m"
  by (simp add: recordPackingMetrics_def Let_def metricOK_def jsnum_NaN_right)




section \<open>Claims about the batch optimizer\<close>

subsection \<open>What the recommendations of a fresh analysis satisfy\<close>

lemma take_target:
  assumes "2 \<le> maxBatchSize cfg" "matches \<noteq> []"
    "\<forall>x \<in> set matches. eligible cfg now targetOrder x"
  shows "wellFormedBatch cfg now targetOrder (take (maxBatchSize cfg) (targetOrder # matches))"
proof -
  obtain k where k: "maxBatchSize cfg = Suc (Suc k)"
    using assms(1) by (metis Suc_le_D numeral_2_eq_2 Suc_le_mono)
  obtain m ms where m: "matches = m # ms"
    using assms(2) by (cases matches) auto
  have "set (take k ms) \<subseteq> set ms" by (rule set_take_subset)
  with assms(3) m k show ?thesis
    unfolding wellFormedBatch_def
    by (intro exI [of _ "m # take k ms"]) auto
qed

lemma filter_eligibleOrders:
  "\<forall>x \<in> set (filter P (filterEligibleOrders cfg now targetOrder pool)). eligible cfg now targetOrder x"
  by (simp add: filterEligibleOrders_def)

lemma analyzeSKUBatches_wf:
  assumes "2 \<le> maxBatchSize cfg" "\<forall>x \<in> set es. eligible cfg now targetOrder x"
    "analyzeSKUBatches cfg targetOrder es = Some bs" "b \<in> set bs"
  shows "wellFormedBatch cfg now targetOrder (batchOrders b)"
proof -
  obtain tsku where t: "sku targetOrder = Some tsku"
    using assms(3) by (cases "sku targetOrder") (auto simp: analyzeSKUBatches_def Let_def)
  have 1: "wellFormedBatch cfg now targetOrder
      (take (maxBatchSize cfg) (targetOrder # filter (\<lambda>ord. sku ord = Some tsku) es))"
    if "filter (\<lambda>ord. sku ord = Some tsku) es \<noteq> []"
    using that assms(1,2) by (intro take_target) auto
  have 2: "wellFormedBatch cfg now targetOrder
      (take (maxBatchSize cfg) (targetOrder # findSimilarSKUs tsku es))"
    if "findSimilarSKUs tsku es \<noteq> []"
    using that assms(1,2) by (intro take_target) (auto simp: findSimilarSKUs_def Let_def)
  from assms(3,4) t 1 2 show ?thesis
    by (auto simp: analyzeSKUBatches_def Let_def split: if_splits)
qed

lemma analyzeGeographicBatches_wf:
  assumes "2 \<le> maxBatchSize cfg" "\<forall>x \<in> set es. eligible cfg now targetOrder x"
    "b \<in> set (analyzeGeographicBatches cfg targetOrder es)"
  shows "wellFormedBatch cfg now targetOrder (batchOrders b)"
proof -
  have 1: "wellFormedBatch cfg now targetOrder (take (maxBatchSize cfg) (targetOrder # filter P es))"
    if "filter P es \<noteq> []" for P
    using that assms(1,2) by (intro take_target) auto
  from assms(3) 1 show ?thesis
    by (auto simp: analyzeGeographicBatches_def Let_def split: if_splits)
qed

lemma analyzeUrgencyBatches_wf:
  assumes "2 \<le> maxBatchSize cfg" "\<forall>x \<in> set es. eligible cfg now targetOrder x"
    "b \<in> set (analyzeUrgencyBatches cfg targetOrder es)"
  shows "wellFormedBatch cfg now targetOrder (batchOrders b)"
proof -
  have 1: "wellFormedBatch cfg now targetOrder (take (maxBatchSize cfg) (targetOrder # filter P es))"
    if "filter P es \<noteq> []" for P
    using that assms(1,2) by (intro take_target) auto
  from assms(3) 1 show ?thesis
    by (auto simp: analyzeUrgencyBatches_def Let_def split: if_splits)
qed

lemma analyzeValueBatches_wf:
  assumes "2 \<le> maxBatchSize cfg" "\<forall>x \<in> set es. eligible cfg now targetOrder x"
    "b \<in> set (analyzeValueBatches cfg targetOrder es)"
  shows "wellFormedBatch cfg now targetOrder (batchOrders b)"
proof -
  have 1: "wellFormedBatch cfg now targetOrder (take (maxBatchSize cfg) (targetOrder # filter P es))"
    if "filter P es \<noteq> []" for P
    using that assms(1,2) by (intro take_target) auto
  from assms(3) 1 show ?thesis
    by (auto simp: analyzeValueBatches_def Let_def split: if_splits)
qed

lemma hybridOf_wf:
  assumes "wellFormedBatch cfg now targetOrder (batchOrders sb)"
    "wellFormedBatch cfg now targetOrder (batchOrders gb)"
    "b \<in> set (hybridOf cfg sb gb)"
  shows "wellFormedBatch cfg now targetOrder (batchOrders b)"
proof -
  obtain srest where s: "batchOrders sb = targetOrder # srest"
    using assms(1) unfolding wellFormedBatch_def by blast
  obtain grest where g: "batchOrders gb = targetOrder # grest"
    "length (batchOrders gb) \<le> maxBatchSize cfg"
    "\<forall>x \<in> set grest. eligible cfg now targetOrder x"
    using assms(2) unfolding wellFormedBatch_def by blast
  define r where "r = filter (\<lambda>ord. orderNumber ord \<in> set (map orderNumber (batchOrders sb))) grest"
  have i: "findOrderIntersection (batchOrders sb) (batchOrders gb) = targetOrder # r"
    using s g(1) by (simp add: findOrderIntersection_def r_def)
  have "length r \<le> length grest"
    unfolding r_def by (rule length_filter_le)
  with g(1,2) have l: "length (targetOrder # r) \<le> maxBatchSize cfg"
    by simp
  have e: "\<forall>x \<in> set r. eligible cfg now targetOrder x"
    using g(3) by (simp add: r_def)
  have b: "batchOrders b = targetOrder # r" "3 \<le> length (targetOrder # r)"
    using assms(3) i by (auto simp: hybridOf_def Let_def split: if_splits)
  then have "r \<noteq> []"
    by auto
  with b(1) l e show ?thesis
    unfolding wellFormedBatch_def by (intro exI [of _ r]) simp
qed

lemma createHybridBatches_wf:
  assumes "\<forall>sb \<in> set sbs. wellFormedBatch cfg now targetOrder (batchOrders sb)"
    "\<forall>gb \<in> set gbs. wellFormedBatch cfg now targetOrder (batchOrders gb)"
    "b \<in> set (createHybridBatches cfg sbs gbs)"
  shows "wellFormedBatch cfg now targetOrder (batchOrders b)"
proof -
  from assms(3) obtain sb gb where "sb \<in> set sbs" "gb \<in> set gbs" "b \<in> set (hybridOf cfg sb gb)"
    unfolding createHybridBatches_def by auto
  with assms(1,2) show ?thesis
    by (intro hybridOf_wf [of cfg now targetOrder sb gb b]) blast+
qed

lemma rankBatchesByEfficiency_subset: "set (rankBatchesByEfficiency cfg bs) \<subseteq> set bs"
proof -
  have "set (rankBatchesByEfficiency cfg bs) \<subseteq>
        set (sortBy compareBatches (filter (\<lambda>b. timeSavings (batchEfficiency b) \<ge> minTimeSavings cfg) bs))"
    unfolding rankBatchesByEfficiency_def by (rule set_take_subset)
  then show ?thesis by (auto simp: set_sortBy)
qed

lemma performComprehensiveBatchAnalysis_wf:
  assumes "2 \<le> maxBatchSize cfg" "\<forall>x \<in> set es. eligible cfg now targetOrder x"
    "performComprehensiveBatchAnalysis cfg targetOrder es = Some rbs" "b \<in> set rbs"
  shows "wellFormedBatch cfg now targetOrder (batchOrders b)"
proof -
  obtain sbs where sbs: "analyzeSKUBatches cfg targetOrder es = Some sbs"
    using assms(3) by (cases "analyzeSKUBatches cfg targetOrder es")
      (auto simp: performComprehensiveBatchAnalysis_def)
  let ?g = "analyzeGeographicBatches cfg targetOrder es"
  let ?u = "analyzeUrgencyBatches cfg targetOrder es"
  let ?v = "analyzeValueBatches cfg targetOrder es"
  let ?h = "createHybridBatches cfg sbs ?g"
  have r: "rbs = rankBatchesByEfficiency cfg (sbs @ ?g @ ?u @ ?v @ ?h)"
    using assms(3) sbs by (simp add: performComprehensiveBatchAnalysis_def Let_def)
  have s: "\<forall>sb \<in> set sbs. wellFormedBatch cfg now targetOrder (batchOrders sb)"
    using analyzeSKUBatches_wf [OF assms(1,2) sbs] by blast
  have g: "\<forall>gb \<in> set ?g. wellFormedBatch cfg now targetOrder (batchOrders gb)"
    using analyzeGeographicBatches_wf [OF assms(1,2)] by blast
  have u: "\<forall>gb \<in> set ?u. wellFormedBatch cfg now targetOrder (batchOrders gb)"
    using analyzeUrgencyBatches_wf [OF assms(1,2)] by blast
  have v: "\<forall>gb \<in> set ?v. wellFormedBatch cfg now targetOrder (batchOrders gb)"
    using analyzeValueBatches_wf [OF assms(1,2)] by blast
  have h: "\<forall>gb \<in> set ?h. wellFormedBatch cfg now targetOrder (batchOrders gb)"
    using createHybridBatches_wf [OF s g] by blast
  have "b \<in> set (sbs @ ?g @ ?u @ ?v @ ?h)"
    using assms(4) r rankBatchesByEfficiency_subset by blast
  then consider "b \<in> set sbs" | "b \<in> set ?g" | "b \<in> set ?u" | "b \<in> set ?v" | "b \<in> set ?h"
    by (simp only: set_append Un_iff) blast
  then show ?thesis
  proof cases
    case 1 with s show ?thesis by blast
  next
    case 2 with g show ?thesis by blast
  next
    case 3 with u show ?thesis by blast
  next
    case 4 with v show ?thesis by blast
  next
    case 5 with h show ?thesis by blast
  qed
qed

lemma generateBatchRecommendations_orders: "r \<in> set (generateBatchRecommendations cfg bs) \<Longrightarrow> \<exists>b \<in> set bs. recOrders r = batchOrders b"
  by (auto simp: generateBatchRecommendations_def recommend_def in_set_enumerate_eq)

lemma findBatchOpportunities_batches_well_formed:
  assumes "2 \<le> maxBatchSize cfg"
    "analysisCache s (generateCacheKey btoa targetOrder pool) = None"
    "r \<in> set (batchOpportunities (snd (findBatchOpportunities btoa cfg s now targetOrder pool)))"
  shows "wellFormedBatch cfg now targetOrder (recOrders r)"
proof -
  let ?es = "filterEligibleOrders cfg now targetOrder pool"
  have e: "\<forall>x \<in> set ?es. eligible cfg now targetOrder x"
    by (simp add: filterEligibleOrders_def)
  from assms(2,3) obtain rbs where
    a: "performComprehensiveBatchAnalysis cfg targetOrder ?es = Some rbs"
    and r: "r \<in> set (generateBatchRecommendations cfg rbs)"
    by (auto simp: findBatchOpportunities_def Let_def createEmptyResult_def createErrorResult_def
        split: if_splits option.splits)
  from generateBatchRecommendations_orders [OF r] obtain b where "b \<in> set rbs" "recOrders r = batchOrders b" by blast
  with performComprehensiveBatchAnalysis_wf [OF assms(1) e a] show ?thesis by simp
qed

subsection \<open>The target order is not held to the ceiling\<close>

lemma eligible_candidatePool:
  "filterEligibleOrders defaultConfig now urgentTarget candidatePool = candidatePool"
  by (simp add: filterEligibleOrders_def eligible_def calculateDeliveryDelay_def truthy_def
      defaultConfig_def urgentTarget_def candidatePool_def batchOrderOf_def)

lemma validateInputs_candidatePool: "validateInputs urgentTarget candidatePool"
  by (simp add: validateInputs_def truthy_def urgentTarget_def candidatePool_def
      batchOrderOf_def)

lemma candidatePool_not_empty: "candidatePool \<noteq> []"
  by (simp add: candidatePool_def)

lemma sku_candidatePool:
  "analyzeSKUBatches defaultConfig urgentTarget candidatePool =
     Some [\<lparr>batchType = ''sku_exact'', batchOrders = urgentTarget # candidatePool,
            batchEfficiency =
              \<lparr>baseTime = 10.5, batchTime = 8.25, timeSavings = 2.25,
               efficiencyGain = 150 / 7, costSavings = 1.125, riskScore = 0.95\<rparr>,
            batchPriority = ''high''\<rparr>]"
  by (simp add: analyzeSKUBatches_def findSimilarSKUs_def calculateSKUBatchEfficiency_def
      calculateBatchRiskScore_def defaultConfig_def urgentTarget_def candidatePool_def
      batchOrderOf_def Let_def)

lemma geographic_candidatePool:
  "analyzeGeographicBatches defaultConfig urgentTarget candidatePool = []"
  by (simp add: analyzeGeographicBatches_def countyAdjacency_def defaultConfig_def
      urgentTarget_def candidatePool_def batchOrderOf_def Let_def)

lemma urgency_candidatePool:
  "analyzeUrgencyBatches defaultConfig urgentTarget candidatePool = []"
  by (simp add: analyzeUrgencyBatches_def defaultConfig_def urgentTarget_def
      candidatePool_def batchOrderOf_def Let_def)

lemma value_candidatePool:
  "analyzeValueBatches defaultConfig urgentTarget candidatePool = []"
  by (simp add: analyzeValueBatches_def urgentTarget_def batchOrderOf_def Let_def)

lemma analysis_candidatePool:
  "performComprehensiveBatchAnalysis defaultConfig urgentTarget candidatePool =
     Some [\<lparr>batchType = ''sku_exact'', batchOrders = urgentTarget # candidatePool,
            batchEfficiency =
              \<lparr>baseTime = 10.5, batchTime = 8.25, timeSavings = 2.25,
               efficiencyGain = 150 / 7, costSavings = 1.125, riskScore = 0.95\<rparr>,
            batchPriority = ''high''\<rparr>]"
  by (simp add: performComprehensiveBatchAnalysis_def sku_candidatePool
      geographic_candidatePool urgency_candidatePool value_candidatePool
      createHybridBatches_def rankBatchesByEfficiency_def sortBy_def)
     (simp add: defaultConfig_def)

lemma recommendations_candidatePool:
  "generateBatchRecommendations defaultConfig
     [\<lparr>batchType = ''sku_exact'', batchOrders = urgentTarget # candidatePool,
       batchEfficiency =
         \<lparr>baseTime = 10.5, batchTime = 8.25, timeSavings = 2.25,
          efficiencyGain = 150 / 7, costSavings = 1.125, riskScore = 0.95\<rparr>,
       batchPriority = ''high''\<rparr>] =
   [\<lparr>rank = 1, recType = ''sku_exact'', recPriority = ''high'',
     recOrders = urgentTarget # candidatePool,
     timeSavingsMinutes = 2.3, efficiencyGainPercent = 21.4, costSavingsPounds = 1.13,
     recRiskScore = 0.95,
     recFeasibility =
       \<lparr>feasibilityScore = 70, feasibilityFactors = [''High urgency orders present''],
        overallRating = ''good''\<rparr>\<rparr>]"
  by (simp add: generateBatchRecommendations_def recommend_def assessBatchFeasibility_def
      defaultConfig_def urgentTarget_def candidatePool_def batchOrderOf_def round_def)

lemma result_candidatePool:
  "batchOpportunities
     (snd (findBatchOpportunities btoa defaultConfig newOptimizer now urgentTarget
             candidatePool)) =
   generateBatchRecommendations defaultConfig
     [\<lparr>batchType = ''sku_exact'', batchOrders = urgentTarget # candidatePool,
       batchEfficiency =
         \<lparr>baseTime = 10.5, batchTime = 8.25, timeSavings = 2.25,
          efficiencyGain = 150 / 7, costSavings = 1.125, riskScore = 0.95\<rparr>,
       batchPriority = ''high''\<rparr>]"
  by (simp add: findBatchOpportunities_def validateInputs_candidatePool
      eligible_candidatePool candidatePool_not_empty analysis_candidatePool newOptimizer_def
      Let_def)

text \<open>
  C8. The code at a target order with urgency 95 and a pool of two orders with the
  target's SKU, on a new optimizer with the default configuration: the one
  recommendation holds the target and both candidates, so it holds an order above the
  critical-urgency ceiling of 85, and \<open>validateBatchForExecution\<close> refuses these
  very orders for that reason.
\<close>

theorem findBatchOpportunities_recommends_critical_target:
  "batchOpportunities
     (snd (findBatchOpportunities btoa defaultConfig newOptimizer now urgentTarget
             candidatePool)) =
   [\<lparr>rank = 1, recType = ''sku_exact'', recPriority = ''high'',
     recOrders = urgentTarget # candidatePool,
     timeSavingsMinutes = 2.3, efficiencyGainPercent = 21.4, costSavingsPounds = 1.13,
     recRiskScore = 0.95,
     recFeasibility =
       \<lparr>feasibilityScore = 70, feasibilityFactors = [''High urgency orders present''],
        overallRating = ''good''\<rparr>\<rparr>] \<and>
   urgencyScore urgentTarget = 95 \<and> criticalUrgencyScore defaultConfig = 85 \<and>
   validateBatchForExecution defaultConfig (urgentTarget # candidatePool) =
     Some ''Batch contains critical urgency orders''"
proof (intro conjI)
  show "batchOpportunities
     (snd (findBatchOpportunities btoa defaultConfig newOptimizer now urgentTarget
             candidatePool)) =
   [\<lparr>rank = 1, recType = ''sku_exact'', recPriority = ''high'',
     recOrders = urgentTarget # candidatePool,
     timeSavingsMinutes = 2.3, efficiencyGainPercent = 21.4, costSavingsPounds = 1.13,
     recRiskScore = 0.95,
     recFeasibility =
       \<lparr>feasibilityScore = 70, feasibilityFactors = [''High urgency orders present''],
        overallRating = ''good''\<rparr>\<rparr>]"
    using result_candidatePool recommendations_candidatePool by (rule trans)
qed (simp_all add: validateBatchForExecution_def defaultConfig_def urgentTarget_def
       candidatePool_def batchOrderOf_def)

end
